theory Spec2Isabelle
  imports Complex_Main
begin

section \<open>JavaScript numbers\<close>

text \<open>
  The calculator computes with JavaScript numbers. A finite number is idealised as a
  real: overflow and the sign of zero are not modelled (a zero divisor is the positive
  zero), and rounding is modelled only in the contribution waterfall, see
  \<open>round_double\<close>. The values that leave the finite numbers,
  \<open>Infinity\<close>, \<open>-Infinity\<close> and \<open>NaN\<close>, are kept, with the arithmetic
  and the comparisons JavaScript gives them, because the program divides by values
  that can be zero and raises negative bases to fractional powers.
\<close>

datatype jsnum = Fin real | PInf | NInf | NaN

instantiation jsnum :: "{plus, minus, uminus, times, inverse, ord}"
begin

fun uminus_jsnum :: "jsnum \<Rightarrow> jsnum" where
  "uminus_jsnum (Fin a) = Fin (- a)"
| "uminus_jsnum PInf = NInf"
| "uminus_jsnum NInf = PInf"
| "uminus_jsnum NaN = NaN"

fun plus_jsnum :: "jsnum \<Rightarrow> jsnum \<Rightarrow> jsnum" where
  "plus_jsnum (Fin a) (Fin b) = Fin (a + b)"
| "plus_jsnum NaN _ = NaN"
| "plus_jsnum _ NaN = NaN"
| "plus_jsnum PInf NInf = NaN"
| "plus_jsnum NInf PInf = NaN"
| "plus_jsnum PInf _ = PInf"
| "plus_jsnum _ PInf = PInf"
| "plus_jsnum NInf _ = NInf"
| "plus_jsnum _ NInf = NInf"

definition minus_jsnum :: "jsnum \<Rightarrow> jsnum \<Rightarrow> jsnum" where
  "minus_jsnum a b = a + (- b)"

fun times_jsnum :: "jsnum \<Rightarrow> jsnum \<Rightarrow> jsnum" where
  "times_jsnum (Fin a) (Fin b) = Fin (a * b)"
| "times_jsnum NaN _ = NaN"
| "times_jsnum _ NaN = NaN"
| "times_jsnum PInf (Fin b) = (if b = 0 then NaN else if 0 < b then PInf else NInf)"
| "times_jsnum NInf (Fin b) = (if b = 0 then NaN else if 0 < b then NInf else PInf)"
| "times_jsnum (Fin a) PInf = (if a = 0 then NaN else if 0 < a then PInf else NInf)"
| "times_jsnum (Fin a) NInf = (if a = 0 then NaN else if 0 < a then NInf else PInf)"
| "times_jsnum PInf PInf = PInf"
| "times_jsnum NInf NInf = PInf"
| "times_jsnum PInf NInf = NInf"
| "times_jsnum NInf PInf = NInf"

fun divide_jsnum :: "jsnum \<Rightarrow> jsnum \<Rightarrow> jsnum" where
  "divide_jsnum (Fin a) (Fin b) =
     (if b = 0 then (if a = 0 then NaN else if 0 < a then PInf else NInf) else Fin (a / b))"
| "divide_jsnum NaN _ = NaN"
| "divide_jsnum _ NaN = NaN"
| "divide_jsnum (Fin a) _ = Fin 0"
| "divide_jsnum PInf (Fin b) = (if 0 \<le> b then PInf else NInf)"
| "divide_jsnum NInf (Fin b) = (if 0 \<le> b then NInf else PInf)"
| "divide_jsnum PInf PInf = NaN"
| "divide_jsnum PInf NInf = NaN"
| "divide_jsnum NInf PInf = NaN"
| "divide_jsnum NInf NInf = NaN"

definition inverse_jsnum :: "jsnum \<Rightarrow> jsnum" where
  "inverse_jsnum a = Fin 1 div a"

fun less_jsnum :: "jsnum \<Rightarrow> jsnum \<Rightarrow> bool" where
  "less_jsnum (Fin a) (Fin b) = (a < b)"
| "less_jsnum NaN _ = False"
| "less_jsnum _ NaN = False"
| "less_jsnum PInf _ = False"
| "less_jsnum _ NInf = False"
| "less_jsnum _ PInf = True"
| "less_jsnum NInf _ = True"

fun less_eq_jsnum :: "jsnum \<Rightarrow> jsnum \<Rightarrow> bool" where
  "less_eq_jsnum (Fin a) (Fin b) = (a \<le> b)"
| "less_eq_jsnum NaN _ = False"
| "less_eq_jsnum _ NaN = False"
| "less_eq_jsnum _ PInf = True"
| "less_eq_jsnum NInf _ = True"
| "less_eq_jsnum PInf _ = False"
| "less_eq_jsnum _ NInf = False"

instance ..

end

text \<open>
  \<open>Math.max\<close>, \<open>Math.min\<close> (of two and of four arguments) and \<open>Math.ceil\<close>:
  \<open>NaN\<close> is contagious.
\<close>

fun Math_max :: "jsnum \<Rightarrow> jsnum \<Rightarrow> jsnum" where
  "Math_max NaN _ = NaN"
| "Math_max _ NaN = NaN"
| "Math_max a b = (if a \<le> b then b else a)"

fun Math_min :: "jsnum \<Rightarrow> jsnum \<Rightarrow> jsnum" where
  "Math_min NaN _ = NaN"
| "Math_min _ NaN = NaN"
| "Math_min a b = (if a \<le> b then a else b)"

definition Math_min4 :: "jsnum \<Rightarrow> jsnum \<Rightarrow> jsnum \<Rightarrow> jsnum \<Rightarrow> jsnum" where
  "Math_min4 a b c d = Math_min a (Math_min b (Math_min c d))"

fun Math_ceil :: "jsnum \<Rightarrow> jsnum" where
  "Math_ceil (Fin a) = Fin (real_of_int \<lceil>a\<rceil>)"
| "Math_ceil a = a"

text \<open>
  The loose comparisons \<open>==\<close> and \<open>!=\<close> on numbers, and \<open>x || 0\<close>, which
  replaces the falsy numbers \<open>0\<close> and \<open>NaN\<close> by \<open>0\<close>.
\<close>

definition js_eq :: "jsnum \<Rightarrow> jsnum \<Rightarrow> bool" where
  "js_eq a b \<longleftrightarrow> a \<noteq> NaN \<and> b \<noteq> NaN \<and> a = b"

definition js_ne :: "jsnum \<Rightarrow> jsnum \<Rightarrow> bool" where
  "js_ne a b \<longleftrightarrow> \<not> js_eq a b"

definition or0 :: "jsnum \<Rightarrow> jsnum" where
  "or0 a = (if a = NaN \<or> a = Fin 0 then Fin 0 else a)"

text \<open>
  \<open>Math.pow\<close> on finite arguments. A whole exponent gives the integer power (also of a
  negative base); a fractional exponent of a negative base gives \<open>NaN\<close>; zero to a
  negative power gives \<open>Infinity\<close>.
\<close>

definition is_whole :: "real \<Rightarrow> bool" where
  "is_whole y \<longleftrightarrow> real_of_int \<lfloor>y\<rfloor> = y"

definition rpow :: "real \<Rightarrow> real \<Rightarrow> real" where
  "rpow x y = (if is_whole y then x powi \<lfloor>y\<rfloor> else x powr y)"

definition Math_pow :: "real \<Rightarrow> real \<Rightarrow> jsnum" where
  "Math_pow x y =
     (if x = 0 \<and> y < 0 then PInf
      else if x < 0 \<and> \<not> is_whole y then NaN
      else Fin (rpow x y))"

text \<open>
  Rounding to a double: the nearest number with a significand of 53 bits, ties to the
  even significand (the exponent is not bounded, so there is no overflow and there are
  no subnormal numbers). The contribution waterfall rounds the result of every
  arithmetic operation this way, because \<open>Math.ceil\<close> there turns a rounding error of
  the last bit into a whole percent of pay; elsewhere a result is the exact real.
\<close>

definition round_even :: "real \<Rightarrow> int" where
  "round_even y =
     (let f = \<lfloor>y\<rfloor>; d = y - real_of_int f
      in if d < 1 / 2 then f else if 1 / 2 < d then f + 1 else if even f then f else f + 1)"

definition round_double :: "real \<Rightarrow> real" where
  "round_double x =
     (if x = 0 then 0
      else let ulp = 2 powi (\<lfloor>log 2 \<bar>x\<bar>\<rfloor> - 52)
           in ulp * real_of_int (round_even (x / ulp)))"

fun rounded :: "jsnum \<Rightarrow> jsnum" where
  "rounded (Fin a) = Fin (round_double a)"
| "rounded PInf = PInf"
| "rounded NInf = NInf"
| "rounded NaN = NaN"

section \<open>The corpus sizer and the annuity solver: \<open>calculate\<close>\<close>

text \<open>
  The object \<open>calculate\<close> returns. Only the return taken when \<open>n === 0\<close> has a
  property \<open>lumpNeeded\<close>; in the other two it is absent (\<open>None\<close>).
\<close>

record calc_result =
  targetCorpus :: jsnum
  annual :: jsnum
  lumpNeeded :: "jsnum option"

text \<open>
  The loop \<open>for (let t = 0; t < N; t++)\<close> of \<open>calculate\<close>, with its accumulator
  \<open>pv\<close>. The counter is a whole number; the bound \<open>N\<close> is any finite number.
\<close>

function calculate_pv ::
  "real \<Rightarrow> real \<Rightarrow> real \<Rightarrow> real \<Rightarrow> real \<Rightarrow> real \<Rightarrow> real \<Rightarrow> real \<Rightarrow> nat \<Rightarrow> jsnum \<Rightarrow> jsnum" where
  "calculate_pv N withdrawal g pensionAnnual ssAnnual ssOffset fixedIncomeInflation rPost t pv =
     (if real t < N then
        (let baseWithdrawal = Fin withdrawal * Math_pow (1 + g) (real t);
             pensionAdj = Fin pensionAnnual * Math_pow (1 + fixedIncomeInflation) (real t);
             ssAdj = (if ssOffset \<le> real t
                      then Fin ssAnnual * Math_pow (1 + fixedIncomeInflation) (real t - ssOffset)
                      else Fin 0);
             netWithdrawal = Math_max (Fin 0) (baseWithdrawal - pensionAdj - ssAdj)
         in calculate_pv N withdrawal g pensionAnnual ssAnnual ssOffset fixedIncomeInflation rPost
              (Suc t) (pv + netWithdrawal / Math_pow (1 + rPost) (real t + 1)))
      else pv)"
  by pat_completeness auto
termination
  by (relation "measure (\<lambda>(N, w, g, p, s, off, f, r, t, pv). nat \<lceil>N\<rceil> - t)") (auto, linarith)

declare calculate_pv.simps [simp del]

definition calculate ::
  "real \<Rightarrow> real \<Rightarrow> real \<Rightarrow> real \<Rightarrow> real \<Rightarrow> real \<Rightarrow> real \<Rightarrow> real \<Rightarrow> real \<Rightarrow> real \<Rightarrow> real \<Rightarrow> calc_result" where
  "calculate currentAssets yearsToRetire yearsInRetirement withdrawal rPre rPost g
     pensionAnnual ssAnnual ssOffset fixedIncomeInflation =
     (let N = yearsInRetirement in
      if N \<le> 0 then \<lparr>targetCorpus = Fin 0, annual = Fin 0, lumpNeeded = None\<rparr>
      else
        let pv = calculate_pv N withdrawal g pensionAnnual ssAnnual ssOffset
                   fixedIncomeInflation rPost 0 (Fin 0);
            n = yearsToRetire;
            fvAssets = Fin currentAssets * Math_pow (1 + rPre) n;
            neededFv = Math_max (Fin 0) (pv - fvAssets)
        in if n = 0 then
             \<lparr>targetCorpus = pv, annual = Fin 0,
              lumpNeeded = Some (Math_max (Fin 0) (pv - Fin currentAssets))\<rparr>
           else if 0 < rPre then
             (let annuityFactor = (Math_pow (1 + rPre) n - Fin 1) / Fin rPre
              in \<lparr>targetCorpus = pv, annual = neededFv / annuityFactor, lumpNeeded = None\<rparr>)
           else \<lparr>targetCorpus = pv, annual = neededFv / Fin n, lumpNeeded = None\<rparr>)"

section \<open>The chart's balance projector: \<open>simulatePoints\<close>\<close>

text \<open>
  \<open>TimelineChart\<close> receives its properties as numbers. The body of one simulated year
  of \<open>simulatePoints\<close> (growth, then contribution or withdrawal):
\<close>

definition simulatePoints_year ::
  "real \<Rightarrow> real \<Rightarrow> real \<Rightarrow> real \<Rightarrow> real \<Rightarrow> real \<Rightarrow> real \<Rightarrow> real \<Rightarrow> real \<Rightarrow> jsnum \<Rightarrow> jsnum
     \<Rightarrow> real \<Rightarrow> jsnum \<times> jsnum \<Rightarrow> jsnum \<times> jsnum" where
  "simulatePoints_year retirementAge withdrawal inflation rPre rPost pensionAnnual ssAnnual
     ssStartAge fixedIncomeInflation annualRetContribLocal annualNonRetContribLocal age bal =
     (let rate = (if age < retirementAge then rPre else rPost);
          retBal = fst bal * Fin (1 + rate);
          nonretBal = snd bal * Fin (1 + rate)
      in if age < retirementAge then
           (retBal + annualRetContribLocal, nonretBal + annualNonRetContribLocal)
         else
           let yearsSinceRet = age - retirementAge;
               baseW = Fin withdrawal * Math_pow (1 + inflation) (max 0 yearsSinceRet);
               pensionAdj = Fin pensionAnnual
                              * Math_pow (1 + fixedIncomeInflation) (max 0 yearsSinceRet);
               ssAdj = (if ssStartAge \<le> age
                        then (let sinceSS = age - ssStartAge
                              in Fin ssAnnual * Math_pow (1 + fixedIncomeInflation) (max 0 sinceSS))
                        else Fin 0);
               toWithdraw = Math_max (Fin 0) (baseW - pensionAdj - ssAdj);
               (nonretBal', toWithdraw') =
                  (if nonretBal \<ge> toWithdraw then (nonretBal - toWithdraw, Fin 0)
                   else (Fin 0, toWithdraw - nonretBal));
               retBal' = (if Fin 0 < toWithdraw' then Math_max (Fin 0) (retBal - toWithdraw')
                          else retBal)
           in (retBal', nonretBal'))"

text \<open>
  The loop \<open>for (let i = 0; i <= years; i++)\<close>: it records the point of age
  \<open>currentAge + i\<close>, leaves at \<open>i === years\<close>, and otherwise simulates the year.
  A point is the triple of the age and the two balances.
\<close>

type_synonym point = "real \<times> jsnum \<times> jsnum"

function simulatePoints_loop ::
  "real \<Rightarrow> real \<Rightarrow> real \<Rightarrow> real \<Rightarrow> real \<Rightarrow> real \<Rightarrow> real \<Rightarrow> real \<Rightarrow> real \<Rightarrow> real \<Rightarrow> real
     \<Rightarrow> jsnum \<Rightarrow> jsnum \<Rightarrow> nat \<Rightarrow> jsnum \<times> jsnum \<Rightarrow> point list \<Rightarrow> point list" where
  "simulatePoints_loop years currentAge retirementAge withdrawal inflation rPre rPost pensionAnnual
     ssAnnual ssStartAge fixedIncomeInflation annualRetContribLocal annualNonRetContribLocal
     i bal pts =
     (if real i \<le> years then
        (let age = currentAge + real i;
             pts' = pts @ [(age, fst bal, snd bal)]
         in if real i = years then pts'
            else simulatePoints_loop years currentAge retirementAge withdrawal inflation rPre rPost
                   pensionAnnual ssAnnual ssStartAge fixedIncomeInflation
                   annualRetContribLocal annualNonRetContribLocal (Suc i)
                   (simulatePoints_year retirementAge withdrawal inflation rPre rPost pensionAnnual
                      ssAnnual ssStartAge fixedIncomeInflation
                      annualRetContribLocal annualNonRetContribLocal age bal)
                   pts')
      else pts)"
  by pat_completeness auto
termination
  by (relation "measure (\<lambda>(years, c, ra, w, inf, pre, post, p, ss, ssa, f, ar, an, i, bal, pts).
                            nat \<lfloor>years\<rfloor> + 1 - i)") (auto, linarith)

declare simulatePoints_loop.simps [simp del]

definition chart_years :: "real \<Rightarrow> real \<Rightarrow> real \<Rightarrow> real \<Rightarrow> real" where
  "chart_years currentAge lastAge retirementAge penaltyFreeAge =
     (let endAge = max lastAge (max penaltyFreeAge retirementAge)
      in max 0 (endAge - currentAge))"

definition simulatePoints ::
  "real \<Rightarrow> real \<Rightarrow> real \<Rightarrow> real \<Rightarrow> real \<Rightarrow> real \<Rightarrow> real \<Rightarrow> real \<Rightarrow> real \<Rightarrow> real \<Rightarrow> real
     \<Rightarrow> real \<Rightarrow> real \<Rightarrow> real \<Rightarrow> jsnum \<Rightarrow> jsnum \<Rightarrow> point list" where
  "simulatePoints currentAge lastAge retirementAge penaltyFreeAge initialRet initialNonRet
     withdrawal inflation rPre rPost pensionAnnual ssAnnual ssStartAge fixedIncomeInflation
     annualRetContribLocal annualNonRetContribLocal =
     simulatePoints_loop (chart_years currentAge lastAge retirementAge penaltyFreeAge)
       currentAge retirementAge withdrawal inflation rPre rPost pensionAnnual ssAnnual ssStartAge
       fixedIncomeInflation annualRetContribLocal annualNonRetContribLocal
       0 (Fin initialRet, Fin initialNonRet) []"

section \<open>The state of \<open>App\<close> and its derived numbers\<close>

text \<open>
  Every input is kept as the value of its form field, a text (or whatever the browser's
  storage gave back). The engine reads a field in two ways: through \<open>parseNumber\<close>,
  which strips commas and dollar signs and falls back to a default when the value is
  empty or does not read as a finite number, and (in two places) through JavaScript's
  implicit conversion of the raw value to a number. A field is modelled by what these two
  readings see:
  \<^item> \<open>Empty\<close>: the empty text; the fallback, and \<open>0\<close>;
  \<^item> \<open>Plain n\<close>: a text that both read as the finite number \<open>n\<close>;
  \<^item> \<open>Formatted n\<close>: a number written with commas or a dollar sign; \<open>n\<close>, and
    \<open>NaN\<close>;
  \<^item> \<open>Other\<close>: a text that is no number at all; the fallback, and \<open>NaN\<close>;
  \<^item> \<open>Unparsed x\<close>: any other value that \<open>parseNumber\<close> rejects; the fallback, and
    the number \<open>x\<close> of the implicit conversion (\<open>Infinity\<close> for the texts
    \<open>Infinity\<close> and \<open>1e999\<close>, \<open>-Infinity\<close> for \<open>-Infinity\<close>, \<open>1\<close> for a
    stored \<open>true\<close>).
\<close>

datatype field = Empty | Plain real | Formatted real | Other | Unparsed jsnum

fun parseNumber :: "field \<Rightarrow> real \<Rightarrow> real" where
  "parseNumber Empty fallback = fallback"
| "parseNumber (Plain n) fallback = n"
| "parseNumber (Formatted n) fallback = n"
| "parseNumber Other fallback = fallback"
| "parseNumber (Unparsed x) fallback = fallback"

fun ToNumber :: "field \<Rightarrow> jsnum" where
  "ToNumber Empty = Fin 0"
| "ToNumber (Plain n) = Fin n"
| "ToNumber (Formatted n) = NaN"
| "ToNumber Other = NaN"
| "ToNumber (Unparsed x) = x"

record app_state =
  currentAge :: field
  retirementAccounts :: field
  nonRetirement :: field
  retirementAge :: field
  lastAge :: field
  penaltyFreeAge :: field
  withdrawal :: field
  monthlyFixedIncome :: field
  monthlyPension :: field
  ssStartAge :: field
  monthlySocialSecurity :: field
  fixedIncomeInflation :: field
  inflation :: field
  rPre :: field
  rPost :: field
  iraLimit :: field
  four01kLimit :: field
  salary :: field
  bonus :: field
  employerMatchPct :: field

text \<open>The state a first visit starts from (the defaults of \<open>usePersistentState\<close>).\<close>

definition initial_state :: app_state where
  "initial_state =
     \<lparr>currentAge = Plain 40, retirementAccounts = Empty, nonRetirement = Empty,
      retirementAge = Plain 65, lastAge = Plain 95, penaltyFreeAge = Plain (119 / 2),
      withdrawal = Plain 50000, monthlyFixedIncome = Plain 0, monthlyPension = Plain 0,
      ssStartAge = Plain 67, monthlySocialSecurity = Plain 0, fixedIncomeInflation = Plain 0,
      inflation = Plain 2, rPre = Plain 6, rPost = Plain 4, iraLimit = Plain 7500,
      four01kLimit = Plain 24500, salary = Plain 80000, bonus = Plain 0,
      employerMatchPct = Plain 3\<rparr>"

text \<open>
  Three inputs used below: no pay at all, a salary of 100000, and that salary with an
  employer match of 7%.
\<close>

definition state_without_pay :: app_state where
  "state_without_pay = initial_state\<lparr>salary := Plain 0\<rparr>"

definition state_pay_100000 :: app_state where
  "state_pay_100000 = initial_state\<lparr>salary := Plain 100000\<rparr>"

definition state_match_7 :: app_state where
  "state_match_7 = initial_state\<lparr>salary := Plain 100000, employerMatchPct := Plain 7\<rparr>"

definition curAgeNum :: "app_state \<Rightarrow> real" where
  "curAgeNum s = parseNumber (currentAge s) 40"

definition retirementAgeNum :: "app_state \<Rightarrow> real" where
  "retirementAgeNum s = parseNumber (retirementAge s) 65"

definition lastAgeNum :: "app_state \<Rightarrow> real" where
  "lastAgeNum s = parseNumber (lastAge s) 95"

definition penaltyFreeAgeNum :: "app_state \<Rightarrow> real" where
  "penaltyFreeAgeNum s = parseNumber (penaltyFreeAge s) (119 / 2)"

definition withdrawalVal :: "app_state \<Rightarrow> real" where
  "withdrawalVal s = parseNumber (withdrawal s) 50000"

definition monthlyPensionVal :: "app_state \<Rightarrow> real" where
  "monthlyPensionVal s = parseNumber (monthlyPension s) 0"

definition ssStartAgeNum :: "app_state \<Rightarrow> real" where
  "ssStartAgeNum s = parseNumber (ssStartAge s) (retirementAgeNum s)"

definition monthlySocialSecurityVal :: "app_state \<Rightarrow> real" where
  "monthlySocialSecurityVal s = parseNumber (monthlySocialSecurity s) 0"

definition fixedIncomeInflationPct :: "app_state \<Rightarrow> real" where
  "fixedIncomeInflationPct s = parseNumber (fixedIncomeInflation s) 0 / 100"

definition pensionAnnual :: "app_state \<Rightarrow> real" where
  "pensionAnnual s = monthlyPensionVal s * 12"

definition ssAnnual :: "app_state \<Rightarrow> real" where
  "ssAnnual s = monthlySocialSecurityVal s * 12"

definition ssOffset :: "app_state \<Rightarrow> real" where
  "ssOffset s = max 0 (ssStartAgeNum s - retirementAgeNum s)"

definition inflationPct :: "app_state \<Rightarrow> real" where
  "inflationPct s = parseNumber (inflation s) 2 / 100"

definition rPrePct :: "app_state \<Rightarrow> real" where
  "rPrePct s = parseNumber (rPre s) 6 / 100"

definition rPostPct :: "app_state \<Rightarrow> real" where
  "rPostPct s = parseNumber (rPost s) 4 / 100"

definition employerMatchPctNum :: "app_state \<Rightarrow> real" where
  "employerMatchPctNum s = parseNumber (employerMatchPct s) 3"

definition currentAssets :: "app_state \<Rightarrow> real" where
  "currentAssets s = parseNumber (retirementAccounts s) 0 + parseNumber (nonRetirement s) 0"

definition yearsToRetire :: "app_state \<Rightarrow> real" where
  "yearsToRetire s = max 0 (retirementAgeNum s - curAgeNum s)"

definition yearsInRetirement :: "app_state \<Rightarrow> real" where
  "yearsInRetirement s = max 0 (lastAgeNum s - retirementAgeNum s + 1)"

text \<open>The call \<open>calculate(currentAssets, yearsToRetire, yearsInRetirement, ...)\<close> of \<open>App\<close>.\<close>

definition app_calculate :: "app_state \<Rightarrow> calc_result" where
  "app_calculate s =
     calculate (currentAssets s) (yearsToRetire s) (yearsInRetirement s) (withdrawalVal s)
       (rPrePct s) (rPostPct s) (inflationPct s) (pensionAnnual s) (ssAnnual s) (ssOffset s)
       (fixedIncomeInflationPct s)"

definition annualRetirementContrib :: real where
  "annualRetirementContrib = 0"

definition annualNonRetContrib :: real where
  "annualNonRetContrib = 0"

subsection \<open>\<open>projectBalancesToRetirement\<close>\<close>

function projectBalancesToRetirement_loop ::
  "real \<Rightarrow> real \<Rightarrow> nat \<Rightarrow> real \<times> real \<Rightarrow> real \<times> real" where
  "projectBalancesToRetirement_loop n rate i bal =
     (if real i < n then
        projectBalancesToRetirement_loop n rate (Suc i)
          (fst bal * (1 + rate) + annualRetirementContrib,
           snd bal * (1 + rate) + annualNonRetContrib)
      else bal)"
  by pat_completeness auto
termination
  by (relation "measure (\<lambda>(n, rate, i, bal). nat \<lceil>n\<rceil> - i)") (auto, linarith)

declare projectBalancesToRetirement_loop.simps [simp del]

definition projectBalancesToRetirement :: "app_state \<Rightarrow> real \<times> real" where
  "projectBalancesToRetirement s =
     projectBalancesToRetirement_loop (yearsToRetire s) (rPrePct s) 0
       (parseNumber (retirementAccounts s) 0, parseNumber (nonRetirement s) 0)"

definition projRetAtRet :: "app_state \<Rightarrow> real" where
  "projRetAtRet s = fst (projectBalancesToRetirement s)"

definition projNonretAtRet :: "app_state \<Rightarrow> real" where
  "projNonretAtRet s = snd (projectBalancesToRetirement s)"

subsection \<open>The early-withdrawal (bridge) need\<close>

definition earlyYears :: "app_state \<Rightarrow> real" where
  "earlyYears s = max 0 (penaltyFreeAgeNum s - retirementAgeNum s)"

text \<open>
  The loop of the branch taken when \<open>Math.abs(rPostVal - g) > 1e-12\<close>. The branch
  also computes a quotient \<open>q\<close> that nothing reads; it is left out.
\<close>

function earlyNeeded_pvEarly :: "app_state \<Rightarrow> nat \<Rightarrow> jsnum \<Rightarrow> jsnum" where
  "earlyNeeded_pvEarly s t pvEarly =
     (if real t < earlyYears s then
        (let g = inflationPct s;
             rPostVal = rPostPct s;
             baseWithdrawal = Fin (withdrawalVal s) * Math_pow (1 + g) (real t);
             pensionAdj = Fin (pensionAnnual s) * Math_pow (1 + fixedIncomeInflationPct s) (real t);
             ssAdj = (if ssOffset s \<le> real t
                      then Fin (ssAnnual s)
                             * Math_pow (1 + fixedIncomeInflationPct s) (real t - ssOffset s)
                      else Fin 0);
             net = Math_max (Fin 0) (baseWithdrawal - pensionAdj - ssAdj)
         in earlyNeeded_pvEarly s (Suc t) (pvEarly + net / Math_pow (1 + rPostVal) (real t + 1)))
      else pvEarly)"
  by pat_completeness auto
termination
  by (relation "measure (\<lambda>(s, t, pv). nat \<lceil>earlyYears s\<rceil> - t)") (auto, linarith)

declare earlyNeeded_pvEarly.simps [simp del]

text \<open>The loop of the other branch, commented \<open>fallback sum\<close>.\<close>

function earlyNeeded_pv :: "app_state \<Rightarrow> nat \<Rightarrow> jsnum \<Rightarrow> jsnum" where
  "earlyNeeded_pv s t pv =
     (if real t < earlyYears s then
        (let g = inflationPct s;
             rPostVal = rPostPct s;
             baseWithdrawal = Fin (withdrawalVal s) * Math_pow (1 + g) (real t);
             pensionAdj = Fin (pensionAnnual s) * Math_pow (1 + fixedIncomeInflationPct s) (real t);
             ssAdj = (if ssOffset s \<le> real t
                      then Fin (ssAnnual s)
                             * Math_pow (1 + fixedIncomeInflationPct s) (real t - ssOffset s)
                      else Fin 0);
             net = Math_max (Fin 0) (baseWithdrawal - pensionAdj - ssAdj)
         in earlyNeeded_pv s (Suc t) (pv + net / Math_pow (1 + rPostVal) (real t + 1)))
      else pv)"
  by pat_completeness auto
termination
  by (relation "measure (\<lambda>(s, t, pv). nat \<lceil>earlyYears s\<rceil> - t)") (auto, linarith)

declare earlyNeeded_pv.simps [simp del]

definition earlyNeeded :: "app_state \<Rightarrow> jsnum" where
  "earlyNeeded s =
     (let rPostVal = rPostPct s; g = inflationPct s
      in if 0 < earlyYears s then
           (if \<bar>rPostVal - g\<bar> > 1 / 10 ^ 12 then earlyNeeded_pvEarly s 0 (Fin 0)
            else earlyNeeded_pv s 0 (Fin 0))
         else Fin 0)"

definition shortfallNonretAtRet :: "app_state \<Rightarrow> jsnum" where
  "shortfallNonretAtRet s = Math_max (Fin 0) (earlyNeeded s - Fin (projNonretAtRet s))"

definition neededNonretAnnual :: "app_state \<Rightarrow> jsnum" where
  "neededNonretAnnual s =
     (let n = yearsToRetire s; rpre = rPrePct s
      in if Fin 0 < shortfallNonretAtRet s then
           (if n = 0 then shortfallNonretAtRet s
            else if 0 < rpre then
              (let annFactor = (Math_pow (1 + rpre) n - Fin 1) / Fin rpre
               in shortfallNonretAtRet s / annFactor)
            else shortfallNonretAtRet s / Fin n)
         else Fin 0)"

definition remainingTotalAtRet :: "app_state \<Rightarrow> jsnum" where
  "remainingTotalAtRet s =
     Math_max (Fin 0)
       (targetCorpus (app_calculate s)
          - (Fin (projRetAtRet s) + Fin (projNonretAtRet s) + shortfallNonretAtRet s))"

definition additionalRetAnnual :: "app_state \<Rightarrow> jsnum" where
  "additionalRetAnnual s =
     (let n = yearsToRetire s; rpre = rPrePct s
      in if Fin 0 < remainingTotalAtRet s then
           (if n = 0 then remainingTotalAtRet s
            else if 0 < rpre then
              (let annFactor = (Math_pow (1 + rpre) n - Fin 1) / Fin rpre
               in remainingTotalAtRet s / annFactor)
            else remainingTotalAtRet s / Fin n)
         else Fin 0)"

section \<open>The contribution waterfall\<close>

text \<open>
  In this section every sum, difference, product and quotient of the source is rounded
  to a double (\<open>round_double\<close> on numbers, \<open>rounded\<close> on values that may be
  \<open>Infinity\<close> or \<open>NaN\<close>); \<open>Math.min\<close>, \<open>Math.max\<close> and \<open>Math.ceil\<close> are
  exact.
\<close>

definition grossPay :: "app_state \<Rightarrow> real" where
  "grossPay s = round_double (parseNumber (salary s) 0 + parseNumber (bonus s) 0)"

definition employerMatchCap :: "app_state \<Rightarrow> real" where
  "employerMatchCap s = round_double (grossPay s * round_double (employerMatchPctNum s / 100))"

definition employeeCapDollar :: "app_state \<Rightarrow> real" where
  "employeeCapDollar s = max 0 (parseNumber (four01kLimit s) 0)"

text \<open>
  Step 1, the capture of the employer match. The argument is the value of
  \<open>remainingNeed\<close> on entry, which is \<open>additionalRetAnnual\<close>; the result holds the
  variables the step assigns.
\<close>

record step1 =
  emp401kDollarForMatch :: jsnum
  emp401kPctForMatch :: jsnum
  employerMatchDollarApplied :: jsnum
  remainingNeed :: jsnum

definition allocate_step1 :: "app_state \<Rightarrow> jsnum \<Rightarrow> step1" where
  "allocate_step1 s need =
     (if 0 < grossPay s \<and> 0 < employerMatchCap s \<and> Fin 0 < need then
        (let dollar0 = Math_min4 (Fin (grossPay s)) (Fin (employeeCapDollar s))
                         (Fin (employerMatchCap s)) (rounded (need / Fin 2));
             pct0 = rounded (rounded (dollar0 / Fin (grossPay s)) * Fin 100);
             (dollar, pct) =
               (if dollar0 < Fin (employeeCapDollar s) then
                  (let pct1 = Math_ceil pct0;
                       dollar1 = Math_min (rounded (Fin (grossPay s) * rounded (pct1 / Fin 100)))
                                   (Fin (employeeCapDollar s))
                   in (dollar1,
                       if js_eq dollar1 (Fin (employeeCapDollar s))
                       then rounded (rounded (dollar1 / Fin (grossPay s)) * Fin 100) else pct1))
                else (dollar0, pct0));
             applied = Math_min (Fin (employerMatchCap s)) dollar
         in \<lparr>emp401kDollarForMatch = dollar, emp401kPctForMatch = pct,
             employerMatchDollarApplied = applied,
             remainingNeed = Math_max (Fin 0) (rounded (need - rounded (dollar + applied)))\<rparr>)
      else
        \<lparr>emp401kDollarForMatch = Fin 0, emp401kPctForMatch = Fin 0,
         employerMatchDollarApplied = Fin 0, remainingNeed = need\<rparr>)"

text \<open>
  Steps 2 to 5. The second argument is the value of \<open>neededNonretAnnual\<close> on entry; the
  result holds the figures the page shows and the simulations use.
\<close>

record allocation =
  recommendedIra :: jsnum
  emp401kDollarExtraRec :: jsnum
  rec401kDollarUsed :: jsnum
  recEmployerMatchDollarUsed :: jsnum
  totalDeltaRet :: jsnum
  neededNonretAnnual_out :: jsnum

definition allocate :: "app_state \<Rightarrow> jsnum \<Rightarrow> jsnum \<Rightarrow> allocation" where
  "allocate s need nonret =
     (let st1 = allocate_step1 s need;
          need1 = remainingNeed st1;
          ira0 = Math_min (Fin (parseNumber (iraLimit s) 7500)) need1;
          need2 = Math_max (Fin 0) (rounded (need1 - ira0));
          extra = Math_min need2
                    (rounded (ToNumber (four01kLimit s) - emp401kDollarForMatch st1));
          need3 = Math_max (Fin 0) (rounded (need2 - extra));
          dollar0 = rounded (emp401kDollarForMatch st1 + extra);
          (recommended401kDollar, ira) =
            (if dollar0 < Fin (employeeCapDollar s) \<and> Fin 0 < dollar0 then
               (let oldVal = dollar0;
                    recommendedPct =
                      Math_ceil (rounded (rounded (dollar0 / Fin (grossPay s)) * Fin 100));
                    dollar1 = Math_min (Fin (employeeCapDollar s))
                                (rounded (Fin (grossPay s) * rounded (recommendedPct / Fin 100)))
                in (dollar1,
                    if js_ne dollar1 oldVal
                    then Math_max (Fin 0) (rounded (ira0 - rounded (dollar1 - oldVal)))
                    else ira0))
             else (dollar0, ira0));
          used = recommended401kDollar;
          recommendedEmployerMatchDollar = employerMatchDollarApplied st1;
          matchUsed = Math_min (Fin (employerMatchCap s)) used;
          deltaEmployee = rounded (used - recommended401kDollar);
          deltaMatch = rounded (matchUsed - recommendedEmployerMatchDollar);
          delta = Math_max (Fin 0) (rounded (deltaEmployee + deltaMatch));
          nonret1 = (if Fin 0 < delta then Math_max (Fin 0) (rounded (or0 nonret - delta))
                     else nonret);
          nonret2 = (if Fin 0 < need3 then rounded (or0 nonret1 + need3) else nonret1)
      in \<lparr>recommendedIra = ira, emp401kDollarExtraRec = extra, rec401kDollarUsed = used,
          recEmployerMatchDollarUsed = matchUsed, totalDeltaRet = delta,
          neededNonretAnnual_out = nonret2\<rparr>)"

section \<open>The balance projector of \<open>App\<close>: \<open>simulateToAge\<close>\<close>

text \<open>
  The body of one simulated year. The rate is chosen by comparing the age with the number
  \<open>retirementAgeNum\<close>; the choice between contribution and withdrawal compares it with
  the raw field \<open>retirementAge\<close>, as the source does.
\<close>

definition simulateToAge_year ::
  "app_state \<Rightarrow> jsnum \<Rightarrow> real \<Rightarrow> jsnum \<times> jsnum \<Rightarrow> jsnum \<times> jsnum" where
  "simulateToAge_year s additionalNonRetAnnual age bal =
     (let ratePre = rPrePct s;
          ratePost = rPostPct s;
          g = inflationPct s;
          rate = (if age < retirementAgeNum s then ratePre else ratePost);
          retBal = fst bal * Fin (1 + rate);
          nonretBal = snd bal * Fin (1 + rate)
      in if Fin age < ToNumber (retirementAge s) then
           (retBal + Fin annualRetirementContrib,
            nonretBal + (Fin annualNonRetContrib + additionalNonRetAnnual))
         else
           let yearsSinceRet = age - retirementAgeNum s;
               baseWithdrawal = Fin (withdrawalVal s) * Math_pow (1 + g) (max 0 yearsSinceRet);
               pensionAdjLocal = Fin (pensionAnnual s)
                                   * Math_pow (1 + fixedIncomeInflationPct s) (max 0 yearsSinceRet);
               ageSinceSS = age - ssStartAgeNum s;
               ssAdjLocal = (if ssStartAgeNum s \<le> age
                             then Fin (ssAnnual s)
                                    * Math_pow (1 + fixedIncomeInflationPct s) (max 0 ageSinceSS)
                             else Fin 0);
               toWithdraw = Math_max (Fin 0) (baseWithdrawal - pensionAdjLocal - ssAdjLocal);
               (nonretBal', toWithdraw') =
                  (if nonretBal \<ge> toWithdraw then (nonretBal - toWithdraw, Fin 0)
                   else (Fin 0, toWithdraw - nonretBal));
               retBal' = (if Fin 0 < toWithdraw' then Math_max (Fin 0) (retBal - toWithdraw')
                          else retBal)
           in (retBal', nonretBal'))"

function simulateToAge_loop ::
  "app_state \<Rightarrow> real \<Rightarrow> jsnum \<Rightarrow> real \<Rightarrow> jsnum \<times> jsnum \<Rightarrow> jsnum \<times> jsnum" where
  "simulateToAge_loop s targetAge additionalNonRetAnnual age bal =
     (if age < targetAge then
        simulateToAge_loop s targetAge additionalNonRetAnnual (age + 1)
          (simulateToAge_year s additionalNonRetAnnual age bal)
      else bal)"
  by pat_completeness auto
termination
  by (relation "measure (\<lambda>(s, targetAge, a, age, bal). nat \<lceil>targetAge - age\<rceil>)")
     (auto, linarith)

declare simulateToAge_loop.simps [simp del]

definition simulateToAge :: "app_state \<Rightarrow> real \<Rightarrow> jsnum \<Rightarrow> jsnum \<times> jsnum" where
  "simulateToAge s targetAge additionalNonRetAnnual =
     simulateToAge_loop s targetAge additionalNonRetAnnual (curAgeNum s)
       (Fin (parseNumber (retirementAccounts s) 0), Fin (parseNumber (nonRetirement s) 0))"

section \<open>The discounted withdrawal series, as the specification words it\<close>

text \<open>
  The net withdrawal of retirement year \<open>t\<close> and the present value of the series over
  the whole years below the horizon \<open>N\<close>. The year is a real number because the
  balance projector evaluates the net withdrawal at ages that need not be whole years
  after retirement; \<open>rpow\<close> at a whole year is the ordinary power.
\<close>

definition spec_net :: "real \<Rightarrow> real \<Rightarrow> real \<Rightarrow> real \<Rightarrow> real \<Rightarrow> real \<Rightarrow> real \<Rightarrow> real" where
  "spec_net withdrawal0 g pensionAnnual0 ssAnnual0 ssOffsetYears fixedIncomeGrowthRate t =
     max 0 (withdrawal0 * rpow (1 + g) t
            - pensionAnnual0 * rpow (1 + fixedIncomeGrowthRate) t
            - (if ssOffsetYears \<le> t
               then ssAnnual0 * rpow (1 + fixedIncomeGrowthRate) (t - ssOffsetYears)
               else 0))"

definition spec_presentValue ::
  "real \<Rightarrow> real \<Rightarrow> real \<Rightarrow> real \<Rightarrow> real \<Rightarrow> real \<Rightarrow> real \<Rightarrow> real \<Rightarrow> real" where
  "spec_presentValue N withdrawal0 g pensionAnnual0 ssAnnual0 ssOffsetYears fixedIncomeGrowthRate r =
     (\<Sum>t | real t < N.
        spec_net withdrawal0 g pensionAnnual0 ssAnnual0 ssOffsetYears fixedIncomeGrowthRate (real t)
          / (1 + r) ^ (t + 1))"

section \<open>Notions used to state the projector's properties\<close>

text \<open>
  A balance is non-negative when it is a finite number that is not below zero. The
  withdrawal need of a year and the drawdown from the two buckets are the two pieces of
  code that \<open>simulateToAge\<close> and \<open>simulatePoints\<close> share word for word; they are named
  here and identified with the bodies of the two projectors below.
\<close>

fun nonneg :: "jsnum \<Rightarrow> bool" where
  "nonneg (Fin a) = (0 \<le> a)"
| "nonneg a = False"

definition withdraw :: "jsnum \<Rightarrow> jsnum \<times> jsnum \<Rightarrow> jsnum \<times> jsnum" where
  "withdraw toWithdraw bal =
     (let (nonretBal', toWithdraw') =
            (if snd bal \<ge> toWithdraw then (snd bal - toWithdraw, Fin 0)
             else (Fin 0, toWithdraw - snd bal));
          retBal' = (if Fin 0 < toWithdraw' then Math_max (Fin 0) (fst bal - toWithdraw')
                     else fst bal)
      in (retBal', nonretBal'))"

definition year_toWithdraw ::
  "real \<Rightarrow> real \<Rightarrow> real \<Rightarrow> real \<Rightarrow> real \<Rightarrow> real \<Rightarrow> real \<Rightarrow> real \<Rightarrow> jsnum" where
  "year_toWithdraw ra w g p ss ssa f age =
     Math_max (Fin 0)
       (Fin w * Math_pow (1 + g) (max 0 (age - ra))
        - Fin p * Math_pow (1 + f) (max 0 (age - ra))
        - (if ssa \<le> age then Fin ss * Math_pow (1 + f) (max 0 (age - ssa)) else Fin 0))"

definition point_nonneg :: "point \<Rightarrow> bool" where
  "point_nonneg pt \<longleftrightarrow> nonneg (fst (snd pt)) \<and> nonneg (snd (snd pt))"

text \<open>Two more inputs used below.\<close>

definition state_rPre_minus_200 :: app_state where
  "state_rPre_minus_200 = initial_state\<lparr>retirementAccounts := Plain 100, rPre := Plain (- 200)\<rparr>"

definition state_ss_before_retirement :: app_state where
  "state_ss_before_retirement =
     initial_state\<lparr>currentAge := Plain 70, retirementAge := Plain 70, ssStartAge := Plain 67,
       monthlySocialSecurity := Plain 1, fixedIncomeInflation := Plain 100,
       withdrawal := Plain 100, nonRetirement := Plain 1000, rPost := Plain 0\<rparr>"

section \<open>Facts about the number model\<close>

lemma is_whole_of_nat [simp]: "is_whole (real t)"
  by (simp add: is_whole_def)

lemma is_whole_numeral [simp]: "is_whole (numeral k)" "is_whole 0" "is_whole 1"
  by (simp_all add: is_whole_def)

lemma rpow_of_nat [simp]: "rpow x (real t) = x ^ t"
  by (simp add: rpow_def)

lemma rpow_0 [simp]: "rpow x 0 = 1"
  by (simp add: rpow_def)

lemma rpow_numeral [simp]: "rpow x (numeral k) = x ^ numeral k"
  using rpow_of_nat [of x "numeral k"] by (simp del: rpow_of_nat)

lemma rpow_1 [simp]: "rpow x 1 = x"
  using rpow_of_nat [of x 1] by (simp del: rpow_of_nat)

lemma Math_pow_of_nat [simp]: "Math_pow x (real t) = Fin (x ^ t)"
  by (simp add: Math_pow_def)

lemma Math_pow_Suc [simp]: "Math_pow x (real t + 1) = Fin (x ^ Suc t)"
  using Math_pow_of_nat [of x "Suc t"] by (simp add: add.commute del: Math_pow_of_nat)

lemma Math_pow_0 [simp]: "Math_pow x 0 = Fin 1"
  by (simp add: Math_pow_def)

lemma Math_pow_numeral [simp]: "Math_pow x (numeral k) = Fin (x ^ numeral k)"
  by (simp add: Math_pow_def)

lemma Math_pow_1 [simp]: "Math_pow x 1 = Fin x"
  by (simp add: Math_pow_def)

lemma is_whole_diff: "is_whole a \<Longrightarrow> is_whole b \<Longrightarrow> is_whole (a - b)"
  unfolding is_whole_def by (metis floor_of_int of_int_diff)

lemma Math_pow_Fin:
  "0 \<le> x \<or> is_whole y \<Longrightarrow> 0 \<le> y \<Longrightarrow> Math_pow x y = Fin (rpow x y)"
  by (auto simp: Math_pow_def)

lemma Math_max_Fin [simp]: "Math_max (Fin a) (Fin b) = Fin (max a b)"
  by (simp add: max_def)

lemma Math_min_Fin [simp]: "Math_min (Fin a) (Fin b) = Fin (min a b)"
  by (simp add: min_def)

lemma Math_max_NaN [simp]: "Math_max NaN x = NaN" "Math_max x NaN = NaN"
  by (cases x; simp)+

lemma Math_min_NaN [simp]: "Math_min NaN x = NaN" "Math_min x NaN = NaN"
  by (cases x; simp)+

lemma Math_max_PInf [simp]: "Math_max (Fin a) PInf = PInf" "Math_max PInf (Fin a) = PInf"
  by simp_all

lemma Math_min_PInf [simp]: "Math_min (Fin a) PInf = Fin a" "Math_min PInf (Fin a) = Fin a"
  by simp_all

declare Math_max.simps [simp del] Math_min.simps [simp del]

lemma times_Fin: "Fin a * Fin b = Fin (a * b)"
  by simp

lemma plus_Fin: "Fin a + Fin b = Fin (a + b)"
  by simp

lemma less_Fin: "Fin a < Fin b \<longleftrightarrow> a < b"
  by simp

lemma less_eq_Fin: "Fin a \<le> Fin b \<longleftrightarrow> a \<le> b"
  by simp

lemma minus_Fin [simp]: "Fin a - Fin b = Fin (a - b)"
  by (simp add: minus_jsnum_def)

lemma minus_NaN [simp]: "NaN - x = NaN" "x - NaN = NaN"
  by (cases x; simp add: minus_jsnum_def)+

lemma horizon_iff: "real k < N \<longleftrightarrow> k < nat \<lceil>N\<rceil>"
proof -
  have "k < nat \<lceil>N\<rceil> \<longleftrightarrow> int k < \<lceil>N\<rceil>" by linarith
  also have "\<dots> \<longleftrightarrow> real_of_int (int k) < N" by (rule less_ceiling_iff)
  finally show ?thesis by simp
qed

lemma horizon_set: "{k. real k < N} = {..<nat \<lceil>N\<rceil>}"
  unfolding lessThan_def by (simp only: horizon_iff)

lemma sum_below_2: "(\<Sum>t::nat | real t < 2. F t) = F 0 + F 1"
proof -
  have "{t::nat. real t < 2} = {0, 1}" by auto
  then show ?thesis by simp
qed

lemma calculate_pv_sum:
  assumes r: "1 + r \<noteq> 0" and f: "0 \<le> 1 + f \<or> is_whole off"
  shows "calculate_pv N w g p ss off f r t (Fin a) =
         Fin (a + (\<Sum>k = t..<nat \<lceil>N\<rceil>. spec_net w g p ss off f (real k) / (1 + r) ^ (k + 1)))"
proof (induction "nat \<lceil>N\<rceil> - t" arbitrary: t a)
  case 0
  then have "\<not> t < nat \<lceil>N\<rceil>" by linarith
  then have "\<not> real t < N" by (simp only: horizon_iff not_False_eq_True)
  with 0 show ?case by (simp add: calculate_pv.simps)
next
  case (Suc d)
  then have lt: "t < nat \<lceil>N\<rceil>" and d: "d = nat \<lceil>N\<rceil> - Suc t" by simp_all
  have tN: "real t < N" using lt by (simp add: horizon_iff)
  have sspow: "off \<le> real t \<Longrightarrow> Math_pow (1 + f) (real t - off) = Fin (rpow (1 + f) (real t - off))"
    using f by (intro Math_pow_Fin) (auto simp: is_whole_diff)
  have step: "calculate_pv N w g p ss off f r t (Fin a) =
      calculate_pv N w g p ss off f r (Suc t) (Fin (a + spec_net w g p ss off f (real t) / (1 + r) ^ (t + 1)))"
    using tN r sspow by (subst calculate_pv.simps) (simp add: Let_def spec_net_def)
  show ?case
    unfolding step Suc.hyps(1) [OF d] using lt
    by (simp add: sum.atLeast_Suc_lessThan add.assoc)
qed

lemma calculate_targetCorpus_sum:
  assumes "0 < N" "1 + r \<noteq> 0" "0 \<le> 1 + f \<or> is_whole off"
  shows "targetCorpus (calculate ca n N w pre r g p ss off f) = Fin (spec_presentValue N w g p ss off f r)"
proof -
  have "calculate_pv N w g p ss off f r 0 (Fin 0) = Fin (spec_presentValue N w g p ss off f r)"
    using calculate_pv_sum [OF assms(2,3), of N w g p ss 0 0]
    by (simp add: spec_presentValue_def horizon_set lessThan_atLeast0)
  then show ?thesis using assms(1) by (simp add: calculate_def Let_def)
qed

lemma calculate_nonpositive_horizon:
  "N \<le> 0 \<Longrightarrow> calculate ca n N w pre r g p ss off f = \<lparr>targetCorpus = Fin 0, annual = Fin 0, lumpNeeded = None\<rparr>"
  by (simp add: calculate_def)

section \<open>The corpus sizer\<close>

text \<open>
  Claim C1. When the horizon \<open>N\<close> is positive, the target corpus that \<open>calculate\<close>
  returns is the sum, over the whole years \<open>t\<close> below \<open>N\<close> (for a whole \<open>N\<close>
  these are \<open>0, \<dots>, N - 1\<close>), of the net withdrawal of year \<open>t\<close>, floored at zero,
  divided by \<open>(1 + rPost) ^ (t + 1)\<close>. The sum is a number when the discount factor
  \<open>1 + rPost\<close> is not zero and the social-security power is defined (its base is not
  negative, or the offset is a whole number of years). When \<open>N \<le> 0\<close> the target
  corpus is \<open>0\<close>.
\<close>

theorem calculate_targetCorpus:
  "(0 < N \<and> 1 + r \<noteq> 0 \<and> (0 \<le> 1 + f \<or> is_whole off) \<longrightarrow>
      targetCorpus (calculate ca n N w pre r g p ss off f) =
        Fin (\<Sum>t | real t < N.
               max 0 (w * (1 + g) ^ t - p * (1 + f) ^ t
                      - (if off \<le> real t then ss * rpow (1 + f) (real t - off) else 0))
                 / (1 + r) ^ (t + 1)))
   \<and> (N \<le> 0 \<longrightarrow> targetCorpus (calculate ca n N w pre r g p ss off f) = Fin 0)"
  using calculate_targetCorpus_sum [of N r f off ca n w pre g p ss]
    calculate_nonpositive_horizon [of N ca n w pre r g p ss off f]
  by (simp add: spec_presentValue_def spec_net_def)

theorem calculate_targetCorpus_witness:
  "(0::real) < 2 \<and> 1 + (1/4::real) \<noteq> 0 \<and> (0::real) \<le> 1 + 0
   \<and> targetCorpus (calculate 0 0 2 100 0 (1/4) (1/10) 10 5 1 0) = Fin (664/5)
   \<and> targetCorpus (calculate 0 0 0 100 0 (1/4) (1/10) 10 5 1 0) = Fin 0"
  using calculate_targetCorpus [of 2 "1/4" 0 1 0 0 100 0 "1/10" 10 5]
    calculate_targetCorpus [of 0 "1/4" 0 1 0 0 100 0 "1/10" 10 5]
  unfolding sum_below_2 by simp

section \<open>The annuity solver\<close>

lemma rpow_gt_one:
  assumes "1 < x" "0 < y"
  shows "1 < rpow x y"
proof (cases "is_whole y")
  case True
  then obtain k where k: "y = real_of_int k" unfolding is_whole_def by metis
  with assms have "0 < k" by simp
  then have "x powi k = x ^ nat k" by (simp add: power_int_def)
  moreover have "1 < x ^ nat k" using assms(1) \<open>0 < k\<close> by (simp add: one_less_power)
  ultimately show ?thesis using True k by (simp add: rpow_def)
next
  case False
  then show ?thesis using assms by (simp add: rpow_def)
qed

lemma annuity_factor_rearrange:
  assumes "0 < pre" "1 < q"
  shows "X / ((Fin q - Fin 1) / Fin pre) = X * Fin pre / (Fin q - Fin 1)"
  using assms by (cases X) (simp_all add: field_simps)

lemma Math_pow_growth:
  assumes "0 < pre" "0 < n"
  shows "Math_pow (1 + pre) n = Fin (rpow (1 + pre) n)" "1 < rpow (1 + pre) n"
  using assms by (simp_all add: Math_pow_Fin rpow_gt_one)

text \<open>
  Claim C2, as the code has it. \<open>calculate\<close> reaches the annuity solver only when the
  horizon \<open>N\<close> is positive. There, with
  \<open>FV = max(0, targetCorpus - currentAssets * (1 + rPre) ^ n)\<close>: for \<open>n = 0\<close> the
  annual saving is \<open>0\<close> and the lump sum is \<open>max(0, targetCorpus - currentAssets)\<close>; for
  \<open>n > 0\<close> and \<open>rPre > 0\<close> the annual saving is
  \<open>FV * rPre / ((1 + rPre) ^ n - 1)\<close>; for \<open>n > 0\<close> and \<open>rPre \<le> 0\<close> it is
  \<open>FV / n\<close>. When \<open>N \<le> 0\<close> the early return gives an annual saving of \<open>0\<close> and no
  lump-sum figure at all. The equations hold in JavaScript's arithmetic, so also when the
  target corpus is not finite.
\<close>

theorem calculate_annuity:
  "(0 < N \<longrightarrow>
     (let res = calculate ca n N w pre post g p ss off f;
          FV = Math_max (Fin 0) (targetCorpus res - Fin ca * Math_pow (1 + pre) n)
      in (n = 0 \<longrightarrow> annual res = Fin 0
                    \<and> lumpNeeded res = Some (Math_max (Fin 0) (targetCorpus res - Fin ca)))
       \<and> (0 < n \<and> 0 < pre \<longrightarrow>
            annual res = FV * Fin pre / (Math_pow (1 + pre) n - Fin 1))
       \<and> (0 < n \<and> pre \<le> 0 \<longrightarrow> annual res = FV / Fin n)))
   \<and> (N \<le> 0 \<longrightarrow>
        annual (calculate ca n N w pre post g p ss off f) = Fin 0
        \<and> lumpNeeded (calculate ca n N w pre post g p ss off f) = None)"
proof -
  have growth: "0 < n \<Longrightarrow> 0 < pre \<Longrightarrow>
      X / ((Math_pow (1 + pre) n - Fin 1) / Fin pre)
        = X * Fin pre / (Math_pow (1 + pre) n - Fin 1)" for X
    using Math_pow_growth [of pre n] annuity_factor_rearrange [of pre "rpow (1 + pre) n" X]
    by simp
  show ?thesis
    by (auto simp: calculate_def Let_def growth)
qed

text \<open>
  A horizon of one year, a withdrawal of 100 and no discounting give a target corpus of
  100; the three branches of the solver and the early return are then read off the theorem.
\<close>

theorem calculate_annuity_witness:
  "(0::real) < 1
   \<and> annual (calculate 30 0 1 100 (1/10) 0 0 0 0 0 0) = Fin 0
   \<and> lumpNeeded (calculate 30 0 1 100 (1/10) 0 0 0 0 0 0) = Some (Fin 70)
   \<and> annual (calculate 0 1 1 100 (1/10) 0 0 0 0 0 0) = Fin 100
   \<and> annual (calculate 30 2 1 100 0 0 0 0 0 0 0) = Fin 35
   \<and> annual (calculate 30 2 0 100 0 0 0 0 0 0 0) = Fin 0
   \<and> lumpNeeded (calculate 30 2 0 100 0 0 0 0 0 0 0) = None"
proof -
  have corpus: "targetCorpus (calculate ca n 1 100 pre 0 0 0 0 0 0) = Fin 100" for ca n pre
    by (simp add: calculate_def calculate_pv.simps Let_def)
  show ?thesis
    using calculate_annuity [of 1 30 0 100 "1/10" 0 0 0 0 0 0]
      calculate_annuity [of 1 0 1 100 "1/10" 0 0 0 0 0 0]
      calculate_annuity [of 1 30 2 100 0 0 0 0 0 0 0]
      calculate_annuity [of 0 30 2 100 0 0 0 0 0 0 0]
    by (simp add: Let_def corpus)
qed

text \<open>
  The claim as first worded, for every input: with \<open>N = 0\<close> and \<open>n = 0\<close> the result
  carries no lump sum, where the claim gives \<open>max(0, targetCorpus - currentAssets)\<close>.
\<close>

theorem calculate_annuity_counterexample:
  "lumpNeeded (calculate 1000 0 0 50000 (6/100) (4/100) (2/100) 0 0 0 0)
     \<noteq> Some (Math_max (Fin 0)
               (targetCorpus (calculate 1000 0 0 50000 (6/100) (4/100) (2/100) 0 0 0 0) - Fin 1000))"
  by (simp add: calculate_def)

section \<open>Monotonicity of the corpus sizer\<close>

lemma spec_net_mono_withdrawal:
  assumes "0 \<le> 1 + g" "w \<le> w'"
  shows "spec_net w g p ss off f (real t) \<le> spec_net w' g p ss off f (real t)"
proof -
  have "w * (1 + g) ^ t \<le> w' * (1 + g) ^ t"
    using assms by (simp add: mult_right_mono)
  then show ?thesis by (simp add: spec_net_def max_def)
qed

lemma spec_net_antimono_pension:
  assumes "0 \<le> 1 + f" "p \<le> p'"
  shows "spec_net w g p' ss off f (real t) \<le> spec_net w g p ss off f (real t)"
proof -
  have "p * (1 + f) ^ t \<le> p' * (1 + f) ^ t"
    using assms by (simp add: mult_right_mono)
  then show ?thesis by (simp add: spec_net_def max_def)
qed

lemma spec_presentValue_mono:
  assumes "0 < 1 + r"
    and "\<And>t. spec_net w g p ss off f (real t) \<le> spec_net w' g' p' ss' off' f' (real t)"
  shows "spec_presentValue N w g p ss off f r \<le> spec_presentValue N w' g' p' ss' off' f' r"
  unfolding spec_presentValue_def
  by (intro sum_mono divide_right_mono assms(2)) (use assms(1) in simp)

text \<open>
  Claim C8, as the code has it. With a positive discount factor \<open>1 + rPost\<close> (and the
  social-security power defined): when the withdrawal growth factor \<open>1 + g\<close> is not
  negative, a larger first-year withdrawal never gives a smaller target corpus; when the
  fixed-income growth factor is not negative, a larger pension never gives a larger one.
\<close>

theorem calculate_targetCorpus_mono:
  "0 < 1 + post \<Longrightarrow> 0 \<le> 1 + f \<or> is_whole off \<Longrightarrow>
   (0 \<le> 1 + g \<and> w \<le> w' \<longrightarrow>
      targetCorpus (calculate ca n N w pre post g p ss off f)
        \<le> targetCorpus (calculate ca n N w' pre post g p ss off f))
   \<and> (0 \<le> 1 + f \<and> p \<le> p' \<longrightarrow>
      targetCorpus (calculate ca n N w pre post g p' ss off f)
        \<le> targetCorpus (calculate ca n N w pre post g p ss off f))"
proof (cases "0 < N")
  case False
  then show ?thesis by (simp add: calculate_nonpositive_horizon)
next
  case True
  assume r: "0 < 1 + post" and d: "0 \<le> 1 + f \<or> is_whole off"
  from r have r': "1 + post \<noteq> 0" by simp
  show ?thesis
    using spec_presentValue_mono [OF r, of w g p ss off f w' g p ss off f N]
      spec_presentValue_mono [OF r, of w g p' ss off f w g p ss off f N]
      spec_net_mono_withdrawal [of g w w' p ss off f]
      spec_net_antimono_pension [of f p p' w g ss off]
    by (simp add: calculate_targetCorpus_sum [OF True r' d])
qed

theorem calculate_targetCorpus_mono_witness:
  "(0::real) < 1 + 1/4 \<and> (0::real) \<le> 1 + 0 \<and> (0::real) \<le> 1 + 1/10 \<and> (100::real) \<le> 200
   \<and> (10::real) \<le> 20
   \<and> targetCorpus (calculate 0 0 2 100 0 (1/4) (1/10) 10 5 1 0)
        \<le> targetCorpus (calculate 0 0 2 200 0 (1/4) (1/10) 10 5 1 0)
   \<and> targetCorpus (calculate 0 0 2 100 0 (1/4) (1/10) 20 5 1 0)
        \<le> targetCorpus (calculate 0 0 2 100 0 (1/4) (1/10) 10 5 1 0)"
  using calculate_targetCorpus_mono [of "1/4" 0 1 "1/10" 100 200 0 0 2 0 10 5 20]
  by simp

text \<open>
  The claim as first worded, for all rates. A discount rate of \<open>-200%\<close> makes the
  discount factor of the first year \<open>-1\<close>, and a withdrawal of 2 then has a smaller
  target corpus than a withdrawal of 1. Growth rates of \<open>-200%\<close> make the powers
  alternate in sign: raising the withdrawal from 0 to 5 lowers the corpus from 10 to 5,
  and raising the pension from 0 to 10 raises the corpus from 0 to 10.
\<close>

theorem calculate_targetCorpus_mono_counterexample:
  "\<not> targetCorpus (calculate 0 0 1 1 0 (- 2) 0 0 0 0 0)
       \<le> targetCorpus (calculate 0 0 1 2 0 (- 2) 0 0 0 0 0)
   \<and> \<not> targetCorpus (calculate 0 0 2 0 0 0 (- 2) 10 0 0 (- 2))
       \<le> targetCorpus (calculate 0 0 2 5 0 0 (- 2) 10 0 0 (- 2))
   \<and> \<not> targetCorpus (calculate 0 0 2 0 0 0 0 10 0 0 (- 2))
       \<le> targetCorpus (calculate 0 0 2 0 0 0 0 0 0 0 (- 2))"
  by (simp add: calculate_def calculate_pv.simps Let_def)

section \<open>The bridge funding sizer\<close>

lemmas app_numbers =
  curAgeNum_def retirementAgeNum_def lastAgeNum_def penaltyFreeAgeNum_def withdrawalVal_def
  monthlyPensionVal_def ssStartAgeNum_def monthlySocialSecurityVal_def
  fixedIncomeInflationPct_def pensionAnnual_def ssAnnual_def ssOffset_def inflationPct_def
  rPrePct_def rPostPct_def employerMatchPctNum_def currentAssets_def yearsToRetire_def
  yearsInRetirement_def earlyYears_def grossPay_def employerMatchCap_def employeeCapDollar_def
  annualRetirementContrib_def annualNonRetContrib_def initial_state_def

lemma earlyNeeded_pvEarly_eq:
  "earlyNeeded_pvEarly s t a =
     calculate_pv (earlyYears s) (withdrawalVal s) (inflationPct s) (pensionAnnual s) (ssAnnual s)
       (ssOffset s) (fixedIncomeInflationPct s) (rPostPct s) t a"
proof (induction "nat \<lceil>earlyYears s\<rceil> - t" arbitrary: t a)
  case 0
  then have "\<not> t < nat \<lceil>earlyYears s\<rceil>" by linarith
  then have "\<not> real t < earlyYears s" by (simp only: horizon_iff not_False_eq_True)
  then show ?case by (simp add: earlyNeeded_pvEarly.simps calculate_pv.simps)
next
  case (Suc d)
  then have d: "d = nat \<lceil>earlyYears s\<rceil> - Suc t" by simp
  show ?case
    by (subst earlyNeeded_pvEarly.simps, subst calculate_pv.simps)
       (simp add: Let_def Suc.hyps(1) [OF d])
qed

lemma earlyNeeded_pv_eq:
  "earlyNeeded_pv s t a =
     calculate_pv (earlyYears s) (withdrawalVal s) (inflationPct s) (pensionAnnual s) (ssAnnual s)
       (ssOffset s) (fixedIncomeInflationPct s) (rPostPct s) t a"
proof (induction "nat \<lceil>earlyYears s\<rceil> - t" arbitrary: t a)
  case 0
  then have "\<not> t < nat \<lceil>earlyYears s\<rceil>" by linarith
  then have "\<not> real t < earlyYears s" by (simp only: horizon_iff not_False_eq_True)
  then show ?case by (simp add: earlyNeeded_pv.simps calculate_pv.simps)
next
  case (Suc d)
  then have d: "d = nat \<lceil>earlyYears s\<rceil> - Suc t" by simp
  show ?case
    by (subst earlyNeeded_pv.simps, subst calculate_pv.simps)
       (simp add: Let_def Suc.hyps(1) [OF d])
qed

lemma calculate_pv_empty: "N \<le> 0 \<Longrightarrow> calculate_pv N w g p ss off f r 0 a = a"
  by (simp add: calculate_pv.simps)

lemma earlyNeeded_series:
  "earlyNeeded s =
     calculate_pv (earlyYears s) (withdrawalVal s) (inflationPct s) (pensionAnnual s) (ssAnnual s)
       (ssOffset s) (fixedIncomeInflationPct s) (rPostPct s) 0 (Fin 0)"
  by (simp add: earlyNeeded_def Let_def earlyNeeded_pvEarly_eq earlyNeeded_pv_eq calculate_pv_empty)

lemma spec_presentValue_empty: "N \<le> 0 \<Longrightarrow> spec_presentValue N w g p ss off f r = 0"
proof -
  assume "N \<le> 0"
  then have "{t::nat. real t < N} = {}" by auto
  then show ?thesis by (simp add: spec_presentValue_def)
qed

lemma calculate_pv_presentValue:
  assumes "1 + r \<noteq> 0" "0 \<le> 1 + f \<or> is_whole off"
  shows "calculate_pv N w g p ss off f r 0 (Fin 0) = Fin (spec_presentValue N w g p ss off f r)"
  using calculate_pv_sum [OF assms, of N w g p ss 0 0]
  by (simp add: spec_presentValue_def horizon_set lessThan_atLeast0)

text \<open>
  Claim C10. The loop of the branch taken when \<open>|rPost - g| > 1e-12\<close> and the loop of
  the fallback branch return the same value from every loop state, so \<open>earlyNeeded\<close>
  does not depend on the branch: it is the loop of the corpus sizer run over the early
  window, and, where that sum is a number, the discounted withdrawal series over the
  whole years below \<open>earlyYears\<close>.
\<close>

theorem earlyNeeded_branches_agree:
  "earlyNeeded_pvEarly s t a = earlyNeeded_pv s t a
   \<and> earlyNeeded s =
       calculate_pv (earlyYears s) (withdrawalVal s) (inflationPct s) (pensionAnnual s)
         (ssAnnual s) (ssOffset s) (fixedIncomeInflationPct s) (rPostPct s) 0 (Fin 0)
   \<and> (1 + rPostPct s \<noteq> 0 \<and> (0 \<le> 1 + fixedIncomeInflationPct s \<or> is_whole (ssOffset s)) \<longrightarrow>
        earlyNeeded s =
          Fin (\<Sum>t | real t < earlyYears s.
                 max 0 (withdrawalVal s * (1 + inflationPct s) ^ t
                        - pensionAnnual s * (1 + fixedIncomeInflationPct s) ^ t
                        - (if ssOffset s \<le> real t
                           then ssAnnual s
                                  * rpow (1 + fixedIncomeInflationPct s) (real t - ssOffset s)
                           else 0))
                   / (1 + rPostPct s) ^ (t + 1)))"
  using calculate_pv_presentValue [of "rPostPct s" "fixedIncomeInflationPct s" "ssOffset s"
      "earlyYears s" "withdrawalVal s" "inflationPct s" "pensionAnnual s" "ssAnnual s"]
  by (simp add: earlyNeeded_pvEarly_eq earlyNeeded_pv_eq earlyNeeded_series
        spec_presentValue_def spec_net_def)

text \<open>Retiring at 58 with the other defaults leaves a window of one and a half years.\<close>

theorem earlyNeeded_branches_agree_witness:
  "1 + rPostPct (initial_state\<lparr>retirementAge := Plain 58\<rparr>) \<noteq> 0
   \<and> 0 \<le> 1 + fixedIncomeInflationPct (initial_state\<lparr>retirementAge := Plain 58\<rparr>)
   \<and> earlyYears (initial_state\<lparr>retirementAge := Plain 58\<rparr>) = 3 / 2
   \<and> earlyNeeded (initial_state\<lparr>retirementAge := Plain 58\<rparr>)
       = Fin (16093750 / 169)"
proof -
  have win: "(\<Sum>t::nat | real t < 3 / 2. F t) = F 0 + F 1" for F :: "nat \<Rightarrow> real"
  proof -
    have "{t::nat. real t < 3 / 2} = {0, 1}" by auto
    then show ?thesis by simp
  qed
  have ey: "earlyYears (initial_state\<lparr>retirementAge := Plain 58\<rparr>) = 3 / 2"
    by (simp add: app_numbers)
  show ?thesis
    using earlyNeeded_branches_agree [of "initial_state\<lparr>retirementAge := Plain 58\<rparr>" 0 "Fin 0",
        THEN conjunct2, THEN conjunct2]
    unfolding ey win by (simp add: app_numbers)
qed

lemma projectBalancesToRetirement_loop_nonneg:
  assumes "0 \<le> 1 + rate" "0 \<le> snd bal"
  shows "0 \<le> snd (projectBalancesToRetirement_loop n rate i bal)"
  using assms(2)
proof (induction "nat \<lceil>n\<rceil> - i" arbitrary: i bal)
  case 0
  then have "\<not> i < nat \<lceil>n\<rceil>" by linarith
  then have "\<not> real i < n" by (simp only: horizon_iff not_False_eq_True)
  with 0 show ?case by (simp add: projectBalancesToRetirement_loop.simps)
next
  case (Suc d)
  then have d: "d = nat \<lceil>n\<rceil> - Suc i" by simp
  have step: "0 \<le> snd bal * (1 + rate) + annualNonRetContrib"
    using Suc.prems assms(1) by (simp add: annualNonRetContrib_def)
  show ?case
    using Suc.hyps(1) [OF d, of "(fst bal * (1 + rate) + annualRetirementContrib,
                                  snd bal * (1 + rate) + annualNonRetContrib)"] step Suc.prems
    by (subst projectBalancesToRetirement_loop.simps) simp
qed

text \<open>
  Claim C9, as the code has it. When the retirement age equals the penalty-free age, the
  early window is empty and the early present value is \<open>0\<close>. The shortfall is
  \<open>max(0, earlyNeeded - projNonretAtRet)\<close>, so it and the annual bridge saving are
  \<open>0\<close> when the projected non-retirement balance at retirement is not negative, which
  holds when the starting balance is not negative and the pre-retirement growth factor
  \<open>1 + rPre\<close> is not negative.
\<close>

theorem bridge_need_zero:
  "retirementAgeNum s = penaltyFreeAgeNum s \<Longrightarrow>
   earlyYears s = 0 \<and> earlyNeeded s = Fin 0
   \<and> (0 \<le> projNonretAtRet s \<longrightarrow>
        shortfallNonretAtRet s = Fin 0 \<and> neededNonretAnnual s = Fin 0)
   \<and> (0 \<le> parseNumber (nonRetirement s) 0 \<and> 0 \<le> 1 + rPrePct s \<longrightarrow>
        0 \<le> projNonretAtRet s)"
  using projectBalancesToRetirement_loop_nonneg [of "rPrePct s"
      "(parseNumber (retirementAccounts s) 0, parseNumber (nonRetirement s) 0)" "yearsToRetire s" 0]
  by (simp add: earlyYears_def earlyNeeded_def shortfallNonretAtRet_def neededNonretAnnual_def
        projNonretAtRet_def projectBalancesToRetirement_def)

theorem bridge_need_zero_witness:
  "retirementAgeNum (initial_state\<lparr>penaltyFreeAge := Plain 65, nonRetirement := Plain 1000\<rparr>)
     = penaltyFreeAgeNum (initial_state\<lparr>penaltyFreeAge := Plain 65, nonRetirement := Plain 1000\<rparr>)
   \<and> (0::real) \<le> 1000
   \<and> 0 \<le> 1 + rPrePct (initial_state\<lparr>penaltyFreeAge := Plain 65, nonRetirement := Plain 1000\<rparr>)
   \<and> earlyNeeded (initial_state\<lparr>penaltyFreeAge := Plain 65, nonRetirement := Plain 1000\<rparr>) = Fin 0
   \<and> shortfallNonretAtRet (initial_state\<lparr>penaltyFreeAge := Plain 65, nonRetirement := Plain 1000\<rparr>) = Fin 0
   \<and> neededNonretAnnual (initial_state\<lparr>penaltyFreeAge := Plain 65, nonRetirement := Plain 1000\<rparr>) = Fin 0"
  using bridge_need_zero [of "initial_state\<lparr>penaltyFreeAge := Plain 65, nonRetirement := Plain 1000\<rparr>"]
  by (simp add: retirementAgeNum_def penaltyFreeAgeNum_def rPrePct_def initial_state_def)

text \<open>
  The claim as first worded, for every input: a pre-retirement rate of \<open>-200%\<close> turns a
  balance of 100 into \<open>-100\<close> after the one year to retirement, and the shortfall and
  the annual bridge saving are 100 although the two ages are equal.
\<close>

theorem bridge_need_zero_counterexample:
  "retirementAgeNum (initial_state\<lparr>currentAge := Plain 64, penaltyFreeAge := Plain 65,
                       nonRetirement := Plain 100, rPre := Plain (- 200)\<rparr>)
     = penaltyFreeAgeNum (initial_state\<lparr>currentAge := Plain 64, penaltyFreeAge := Plain 65,
                       nonRetirement := Plain 100, rPre := Plain (- 200)\<rparr>)
   \<and> shortfallNonretAtRet (initial_state\<lparr>currentAge := Plain 64, penaltyFreeAge := Plain 65,
                       nonRetirement := Plain 100, rPre := Plain (- 200)\<rparr>) = Fin 100
   \<and> neededNonretAnnual (initial_state\<lparr>currentAge := Plain 64, penaltyFreeAge := Plain 65,
                       nonRetirement := Plain 100, rPre := Plain (- 200)\<rparr>) = Fin 100"
  by (simp add: app_numbers shortfallNonretAtRet_def neededNonretAnnual_def earlyNeeded_def
        projNonretAtRet_def projectBalancesToRetirement_def
        projectBalancesToRetirement_loop.simps)

section \<open>Rounding to a double\<close>

text \<open>
  A positive number scaled by a power of two into the range of a 53-bit significand is
  rounded there; whole numbers below \<open>2 ^ 53\<close> are doubles.
\<close>

lemma round_even_of_int [simp]: "round_even (real_of_int k) = k"
  by (simp add: round_even_def)

lemma round_double_eval:
  fixes k :: nat
  assumes "0 < x" "2 ^ 52 \<le> x * 2 ^ k" "x * 2 ^ k < 2 ^ 53"
  shows "round_double x = real_of_int (round_even (x * 2 ^ k)) / 2 ^ k"
proof -
  have lo: "2 powr (52 - real k) \<le> x"
  proof -
    have "2 powr (52 - real k) = 2 ^ 52 / 2 ^ k"
      by (simp add: powr_diff powr_realpow)
    also have "\<dots> \<le> x" using assms(2) by (simp add: field_simps)
    finally show ?thesis .
  qed
  have hi: "x < 2 powr (53 - real k)"
  proof -
    have "x < 2 ^ 53 / 2 ^ k" using assms(3) by (simp add: field_simps)
    also have "\<dots> = 2 powr (53 - real k)"
      by (simp add: powr_diff powr_realpow)
    finally show ?thesis .
  qed
  have "52 - real k \<le> log 2 x" using lo assms(1) by (simp add: le_log_iff)
  moreover have "log 2 x < 53 - real k" using hi assms(1) by (simp add: log_less_iff)
  ultimately have e: "\<lfloor>log 2 x\<rfloor> = 52 - int k" by (simp add: floor_eq_iff)
  have ulp: "(2::real) powi (- int k) = 1 / 2 ^ k"
    by (simp add: power_int_minus field_simps)
  show ?thesis
    using assms(1) by (simp add: round_double_def Let_def e ulp)
qed

lemma round_doubleI:
  fixes k :: nat
  assumes "0 < x" "2 ^ 52 \<le> x * 2 ^ k" "x * 2 ^ k < 2 ^ 53"
    and "real_of_int (round_even (x * 2 ^ k)) = v * 2 ^ k"
  shows "round_double x = v"
  using round_double_eval [OF assms(1-3)] assms(4) by simp

lemma round_double_0 [simp]: "round_double 0 = 0"
  by (simp add: round_double_def)

lemma scale_exists:
  fixes x :: real
  shows "0 < x \<Longrightarrow> 2 ^ 52 \<le> x * 2 ^ m \<Longrightarrow> x < 2 ^ 53 \<Longrightarrow>
   \<exists>k::nat. 2 ^ 52 \<le> x * 2 ^ k \<and> x * 2 ^ k < 2 ^ 53"
proof (induction m)
  case 0
  then show ?case by (intro exI [of _ 0]) simp
next
  case (Suc m)
  show ?case
  proof (cases "2 ^ 52 \<le> x * 2 ^ m")
    case True
    then show ?thesis using Suc by simp
  next
    case False
    then have "x * 2 ^ Suc m < 2 ^ 53" by simp
    then show ?thesis using Suc.prems(2) by (intro exI [of _ "Suc m"]) simp
  qed
qed

lemma round_double_of_nat:
  assumes "real n < 2 ^ 53"
  shows "round_double (real n) = real n"
proof (cases "n = 0")
  case True
  then show ?thesis by simp
next
  case False
  then have pos: "0 < real n" and one: "1 \<le> real n" by simp_all
  have "2 ^ 52 \<le> real n * 2 ^ 52" using one by simp
  then obtain k :: nat where k: "2 ^ 52 \<le> real n * 2 ^ k" "real n * 2 ^ k < 2 ^ 53"
    using scale_exists [OF pos _ assms] by blast
  have "real n * 2 ^ k = real_of_int (int (n * 2 ^ k))" by simp
  then have "round_even (real n * 2 ^ k) = int (n * 2 ^ k)"
    by (simp only: round_even_of_int)
  then show ?thesis
    using round_double_eval [OF pos k] by simp
qed

lemma round_double_numeral [simp]:
  "numeral n < (2::real) ^ 53 \<Longrightarrow> round_double (numeral n) = numeral n"
  using round_double_of_nat [of "numeral n"] by simp

lemma rounded_Fin: "rounded (Fin a) = Fin (round_double a)"
  by simp

text \<open>
  The doubles met below, each as the fraction it is: 3%, 7%, 8% and 10% and what pay of
  100000 makes of them.
\<close>

lemma double_3_percent:
  "round_double (3 / 100) = 1080863910568919 / 36028797018963968"
  by (rule round_doubleI [where k = 58]) (simp_all add: round_even_def)

lemma double_3_percent_of_100000:
  "round_double (3377699720527871875 / 1125899906842624) = 3000"
  by (rule round_doubleI [where k = 41]) (simp_all add: round_even_def)

lemma double_3_percent_implied:
  "round_double (27021597764222975 / 9007199254740992) = 3"
  by (rule round_doubleI [where k = 51]) (simp_all add: round_even_def)

lemma double_9500_of_100000:
  "round_double (19 / 200) = 3422735716801577 / 36028797018963968"
  by (rule round_doubleI [where k = 56]) (simp_all add: round_even_def)

lemma double_9500_implied:
  "round_double (85568392920039425 / 9007199254740992) = 19 / 2"
  by (rule round_doubleI [where k = 49]) (simp_all add: round_even_def)

lemma double_10_percent:
  "round_double (1 / 10) = 3602879701896397 / 36028797018963968"
  by (rule round_doubleI [where k = 56]) (simp_all add: round_even_def)

lemma double_10_percent_of_100000:
  "round_double (11258999068426240625 / 1125899906842624) = 10000"
  by (rule round_doubleI [where k = 39]) (simp_all add: round_even_def)

lemma double_7_percent:
  "round_double (7 / 100) = 1261007895663739 / 18014398509481984"
  by (rule round_doubleI [where k = 56]) (simp_all add: round_even_def)

lemma double_7_percent_of_100000:
  "round_double (3940649673949184375 / 562949953421312) = 7696581394432001 / 1099511627776"
  by (rule round_doubleI [where k = 40]) (simp_all add: round_even_def)

lemma double_7_percent_share:
  "round_double (7696581394432001 / 109951162777600000)
     = 1261007895663739 / 18014398509481984"
  by (rule round_doubleI [where k = 56]) (simp_all add: round_even_def)

lemma double_7_percent_implied:
  "round_double (31525197391593475 / 4503599627370496)
     = 7881299347898369 / 1125899906842624"
  by (rule round_doubleI [where k = 50]) (simp_all add: round_even_def)

lemma double_8_percent:
  "round_double (2 / 25) = 5764607523034235 / 72057594037927936"
  by (rule round_doubleI [where k = 56]) (simp_all add: round_even_def)

lemma double_8_percent_of_100000:
  "round_double (18014398509481984375 / 2251799813685248) = 8000"
  by (rule round_doubleI [where k = 40]) (simp_all add: round_even_def)

lemma double_8000_plus_match:
  "round_double (16492674416640001 / 1099511627776) = 15000"
  by (rule round_doubleI [where k = 39]) (simp_all add: round_even_def)

lemmas doubles_match_3 =
  double_3_percent double_3_percent_of_100000 double_3_percent_implied double_9500_of_100000
  double_9500_implied double_10_percent double_10_percent_of_100000

lemmas doubles_match_7 =
  double_7_percent double_7_percent_of_100000 double_7_percent_share double_7_percent_implied
  double_8_percent double_8_percent_of_100000 double_8000_plus_match

section \<open>The contribution waterfall: step 1\<close>


text \<open>
  A salary of 100000 with a match of 7% and a need of 20000. The cap
  \<open>100000 * (7 / 100)\<close> is the double \<open>7000 + 2 ^ -40\<close>, its percentage of pay is
  computed as \<open>7.000000000000001\<close>, and rounding up gives 8%: the employee amount is
  8000, the match applied is the cap, and 5000 of the need remain.
\<close>

lemma state_match_7_numbers:
  "grossPay state_match_7 = 100000"
  "employerMatchCap state_match_7 = 7696581394432001 / 1099511627776"
  "parseNumber (four01kLimit state_match_7) 0 = 24500"
proof -
  show g: "grossPay state_match_7 = 100000"
    by (simp add: state_match_7_def app_numbers)
  have "employerMatchPctNum state_match_7 = 7"
    by (simp add: state_match_7_def app_numbers)
  then show "employerMatchCap state_match_7 = 7696581394432001 / 1099511627776"
    by (simp add: employerMatchCap_def g doubles_match_7)
  show "parseNumber (four01kLimit state_match_7) 0 = 24500"
    by (simp add: state_match_7_def app_numbers)
qed


section \<open>The contribution waterfall: the outputs\<close>

lemma state_without_pay_numbers:
  "grossPay state_without_pay = 0" "employerMatchCap state_without_pay = 0"
  "employeeCapDollar state_without_pay = 24500"
  "parseNumber (iraLimit state_without_pay) 7500 = 7500"
  "ToNumber (four01kLimit state_without_pay) = Fin 24500"
  by (simp_all add: state_without_pay_def app_numbers)

text \<open>
  Claim C6 at an input without pay (salary and bonus 0) and a need of 10000. Step 1 is
  skipped by its guard \<open>grossPay > 0\<close>; the individual account takes 7500 and step 3
  the other 2500. Step 4 then divides by the gross pay without a guard:
  \<open>2500 / 0\<close> is \<open>Infinity\<close>, \<open>0 * Infinity\<close> is \<open>NaN\<close>, and the employee amount,
  the individual-account amount and the employer match all come out as \<open>NaN\<close>, which
  is neither non-negative nor within a limit.
\<close>

theorem allocate_NaN_without_pay:
  "grossPay state_without_pay = 0
   \<and> rec401kDollarUsed (allocate state_without_pay (Fin 10000) (Fin 0)) = NaN
   \<and> recommendedIra (allocate state_without_pay (Fin 10000) (Fin 0)) = NaN
   \<and> recEmployerMatchDollarUsed (allocate state_without_pay (Fin 10000) (Fin 0)) = NaN"
  by (simp add: allocate_def allocate_step1_def Let_def state_without_pay_numbers
        js_ne_def js_eq_def)

lemma state_pay_100000_numbers:
  "grossPay state_pay_100000 = 100000" "employerMatchCap state_pay_100000 = 3000"
  "employeeCapDollar state_pay_100000 = 24500"
  "parseNumber (iraLimit state_pay_100000) 7500 = 7500"
  "ToNumber (four01kLimit state_pay_100000) = Fin 24500"
proof -
  show g: "grossPay state_pay_100000 = 100000"
    by (simp add: state_pay_100000_def app_numbers)
  have "employerMatchPctNum state_pay_100000 = 3"
    by (simp add: state_pay_100000_def app_numbers)
  then show "employerMatchCap state_pay_100000 = 3000"
    by (simp add: employerMatchCap_def g doubles_match_3)
  show "employeeCapDollar state_pay_100000 = 24500"
    "parseNumber (iraLimit state_pay_100000) 7500 = 7500"
    "ToNumber (four01kLimit state_pay_100000) = Fin 24500"
    by (simp_all add: state_pay_100000_def app_numbers)
qed

text \<open>
  Claim C7 at a salary of 100000, a need of 20000 and a bridge need of 1000 a year. Steps
  1 to 3 give the employee 3000 + 6500 = 9500, the employer 3000 and the individual
  account 7500. Step 4 rounds 9.5% up to 10%: the employee amount becomes 10000 and the
  individual account gives up the 500. The delta credited against the bridge need is
  computed as \<open>rec401kDollarUsed - recommended401kDollar\<close>, two names of the same
  rounded amount, plus the change of the match: it is \<open>0\<close>, and the bridge need stays
  at 1000 although employee and employer contributions rose by 500.
\<close>

theorem allocate_rounding_not_credited:
  "emp401kDollarForMatch (allocate_step1 state_pay_100000 (Fin 20000)) = Fin 3000
   \<and> emp401kDollarExtraRec (allocate state_pay_100000 (Fin 20000) (Fin 1000)) = Fin 6500
   \<and> rec401kDollarUsed (allocate state_pay_100000 (Fin 20000) (Fin 1000)) = Fin 10000
   \<and> recommendedIra (allocate state_pay_100000 (Fin 20000) (Fin 1000)) = Fin 7000
   \<and> recEmployerMatchDollarUsed (allocate state_pay_100000 (Fin 20000) (Fin 1000)) = Fin 3000
   \<and> totalDeltaRet (allocate state_pay_100000 (Fin 20000) (Fin 1000)) = Fin 0
   \<and> neededNonretAnnual_out (allocate state_pay_100000 (Fin 20000) (Fin 1000)) = Fin 1000"
proof -
  have c: "\<lceil>(19 / 2 :: real)\<rceil> = 10" by (simp add: ceiling_eq_iff)
  have step1: "allocate_step1 state_pay_100000 (Fin 20000) =
      \<lparr>emp401kDollarForMatch = Fin 3000, emp401kPctForMatch = Fin 3,
       employerMatchDollarApplied = Fin 3000, remainingNeed = Fin 14000\<rparr>"
    by (simp add: allocate_step1_def Let_def state_pay_100000_numbers js_eq_def
          Math_min4_def doubles_match_3)
  show ?thesis
    by (simp add: allocate_def step1 Let_def state_pay_100000_numbers
          js_ne_def js_eq_def or0_def c doubles_match_3)
qed

text \<open>
  The second round-up sees the same rounding: at a salary of 100000 and a need of 17500,
  steps 1 and 3 give the employee 3000 + 4000 = 7000, whose percentage of pay is computed
  as \<open>7.000000000000001\<close>; step 4 makes it 8%, that is 8000, and the individual
  account falls from 7500 to 6500.
\<close>

lemma allocate_step4_rounds_7_percent_up:
  "rec401kDollarUsed (allocate state_pay_100000 (Fin 17500) (Fin 0)) = Fin 8000
   \<and> recommendedIra (allocate state_pay_100000 (Fin 17500) (Fin 0)) = Fin 6500"
proof -
  have step1: "allocate_step1 state_pay_100000 (Fin 17500) =
      \<lparr>emp401kDollarForMatch = Fin 3000, emp401kPctForMatch = Fin 3,
       employerMatchDollarApplied = Fin 3000, remainingNeed = Fin 11500\<rparr>"
    by (simp add: allocate_step1_def Let_def state_pay_100000_numbers js_eq_def
          Math_min4_def doubles_match_3)
  show ?thesis
    by (simp add: allocate_def step1 Let_def state_pay_100000_numbers
          js_ne_def js_eq_def or0_def doubles_match_7)
qed

section \<open>The balance projectors\<close>

lemma withdraw_Fin:
  "withdraw (Fin W) (Fin r, Fin n) =
     (if W \<le> n then (Fin r, Fin (n - W)) else (Fin (max 0 (r - (W - n))), Fin 0))"
  by (simp add: withdraw_def)

lemma withdraw_NaN: "withdraw NaN (Fin r, Fin n) = (Fin r, Fin 0)"
  by (simp add: withdraw_def)

lemma Math_pow_cases:
  "0 \<le> y \<Longrightarrow> Math_pow x y = NaN \<or> (\<exists>q. Math_pow x y = Fin q)"
  by (auto simp: Math_pow_def)

lemma year_toWithdraw_cases:
  "year_toWithdraw ra w g p ss ssa f age = NaN
   \<or> (\<exists>W. 0 \<le> W \<and> year_toWithdraw ra w g p ss ssa f age = Fin W)"
proof -
  obtain X1 where X1: "Math_pow (1 + g) (max 0 (age - ra)) = X1" by simp
  obtain X2 where X2: "Math_pow (1 + f) (max 0 (age - ra)) = X2" by simp
  obtain X3 where X3: "Math_pow (1 + f) (max 0 (age - ssa)) = X3" by simp
  have c: "X1 = NaN \<or> (\<exists>q. X1 = Fin q)" "X2 = NaN \<or> (\<exists>q. X2 = Fin q)"
    "X3 = NaN \<or> (\<exists>q. X3 = Fin q)"
    using Math_pow_cases [of "max 0 (age - ra)" "1 + g"]
      Math_pow_cases [of "max 0 (age - ra)" "1 + f"]
      Math_pow_cases [of "max 0 (age - ssa)" "1 + f"] X1 X2 X3 by simp_all
  show ?thesis
    unfolding year_toWithdraw_def X1 X2 X3 using c by auto
qed

lemma withdraw_nonneg:
  assumes "nonneg (fst bal)" "nonneg (snd bal)"
    and "X = NaN \<or> (\<exists>W. 0 \<le> W \<and> X = Fin W)"
  shows "nonneg (fst (withdraw X bal)) \<and> nonneg (snd (withdraw X bal))"
proof -
  obtain r n where b: "bal = (Fin r, Fin n)" "0 \<le> r" "0 \<le> n"
    using assms(1,2) by (cases bal; cases "fst bal"; cases "snd bal") auto
  show ?thesis
    using assms(3) b by (auto simp: withdraw_Fin withdraw_NaN)
qed

lemma simulateToAge_year_decumulation:
  "\<not> Fin age < ToNumber (retirementAge s) \<Longrightarrow>
   simulateToAge_year s a age bal =
     withdraw (year_toWithdraw (retirementAgeNum s) (withdrawalVal s) (inflationPct s)
                 (pensionAnnual s) (ssAnnual s) (ssStartAgeNum s) (fixedIncomeInflationPct s) age)
       (fst bal * Fin (1 + (if age < retirementAgeNum s then rPrePct s else rPostPct s)),
        snd bal * Fin (1 + (if age < retirementAgeNum s then rPrePct s else rPostPct s)))"
  by (simp add: simulateToAge_year_def withdraw_def year_toWithdraw_def Let_def)

lemma simulateToAge_year_accumulation:
  "Fin age < ToNumber (retirementAge s) \<Longrightarrow>
   simulateToAge_year s a age bal =
     (fst bal * Fin (1 + (if age < retirementAgeNum s then rPrePct s else rPostPct s))
        + Fin annualRetirementContrib,
      snd bal * Fin (1 + (if age < retirementAgeNum s then rPrePct s else rPostPct s))
        + (Fin annualNonRetContrib + a))"
  by (simp add: simulateToAge_year_def Let_def)

lemma nonneg_grow: "nonneg x \<Longrightarrow> 0 \<le> 1 + rate \<Longrightarrow> nonneg (x * Fin (1 + rate))"
  by (cases x) simp_all

lemma nonneg_add: "nonneg x \<Longrightarrow> nonneg y \<Longrightarrow> nonneg (x + y)"
  by (cases x; cases y) simp_all

lemma simulateToAge_year_nonneg:
  assumes "0 \<le> 1 + rPrePct s" "0 \<le> 1 + rPostPct s" "nonneg a"
    and "nonneg (fst bal)" "nonneg (snd bal)"
  shows "nonneg (fst (simulateToAge_year s a age bal))
         \<and> nonneg (snd (simulateToAge_year s a age bal))"
proof -
  let ?rate = "if age < retirementAgeNum s then rPrePct s else rPostPct s"
  have rate: "0 \<le> 1 + ?rate" using assms(1,2) by simp
  have grown: "nonneg (fst bal * Fin (1 + ?rate))" "nonneg (snd bal * Fin (1 + ?rate))"
    using assms(4,5) rate by (simp_all only: nonneg_grow)
  show ?thesis
  proof (cases "Fin age < ToNumber (retirementAge s)")
    case True
    show ?thesis
      unfolding simulateToAge_year_accumulation [OF True]
      using grown assms(3)
      by (simp add: nonneg_add annualRetirementContrib_def annualNonRetContrib_def)
  next
    case False
    show ?thesis
      unfolding simulateToAge_year_decumulation [OF False]
      by (rule withdraw_nonneg) (use grown year_toWithdraw_cases in simp_all)
  qed
qed

lemma simulateToAge_loop_nonneg:
  "0 \<le> 1 + rPrePct s \<Longrightarrow> 0 \<le> 1 + rPostPct s \<Longrightarrow> nonneg a \<Longrightarrow>
   nonneg (fst bal) \<Longrightarrow> nonneg (snd bal) \<Longrightarrow>
   nonneg (fst (simulateToAge_loop s targetAge a age bal))
   \<and> nonneg (snd (simulateToAge_loop s targetAge a age bal))"
proof (induction s targetAge a age bal rule: simulateToAge_loop.induct)
  case (1 s targetAge a age bal)
  show ?case
  proof (cases "age < targetAge")
    case True
    have year: "nonneg (fst (simulateToAge_year s a age bal))"
      "nonneg (snd (simulateToAge_year s a age bal))"
      using simulateToAge_year_nonneg [OF "1.prems"] by simp_all
    show ?thesis
      using "1.IH" [OF True "1.prems"(1,2,3) year] True
      by (subst (1 2) simulateToAge_loop.simps) simp
  next
    case False
    then show ?thesis
      using "1.prems" by (subst (1 2) simulateToAge_loop.simps) simp
  qed
qed

lemma simulatePoints_year_decumulation:
  "\<not> age < ra \<Longrightarrow>
   simulatePoints_year ra w g pre post p ss ssa f cr cn age bal =
     withdraw (year_toWithdraw ra w g p ss ssa f age)
       (fst bal * Fin (1 + post), snd bal * Fin (1 + post))"
  by (simp add: simulatePoints_year_def withdraw_def year_toWithdraw_def Let_def)

lemma simulatePoints_year_accumulation:
  "age < ra \<Longrightarrow>
   simulatePoints_year ra w g pre post p ss ssa f cr cn age bal =
     (fst bal * Fin (1 + pre) + cr, snd bal * Fin (1 + pre) + cn)"
  by (simp add: simulatePoints_year_def Let_def)

lemma simulatePoints_year_nonneg:
  assumes "0 \<le> 1 + pre" "0 \<le> 1 + post" "nonneg cr" "nonneg cn"
    and "nonneg (fst bal)" "nonneg (snd bal)"
  shows "nonneg (fst (simulatePoints_year ra w g pre post p ss ssa f cr cn age bal))
         \<and> nonneg (snd (simulatePoints_year ra w g pre post p ss ssa f cr cn age bal))"
proof (cases "age < ra")
  case True
  show ?thesis
    unfolding simulatePoints_year_accumulation [OF True]
    using assms by (simp add: nonneg_add nonneg_grow)
next
  case False
  show ?thesis
    unfolding simulatePoints_year_decumulation [OF False]
    by (rule withdraw_nonneg) (use assms year_toWithdraw_cases in \<open>simp_all add: nonneg_grow\<close>)
qed

lemma simulatePoints_loop_nonneg:
  "0 \<le> 1 + pre \<Longrightarrow> 0 \<le> 1 + post \<Longrightarrow> nonneg cr \<Longrightarrow> nonneg cn \<Longrightarrow>
   nonneg (fst bal) \<Longrightarrow> nonneg (snd bal) \<Longrightarrow> list_all point_nonneg pts \<Longrightarrow>
   list_all point_nonneg
     (simulatePoints_loop years ca ra w g pre post p ss ssa f cr cn i bal pts)"
proof (induction years ca ra w g pre post p ss ssa f cr cn i bal pts
        rule: simulatePoints_loop.induct)
  case (1 years ca ra w g pre post p ss ssa f cr cn i bal pts)
  let ?pts = "pts @ [(ca + real i, fst bal, snd bal)]"
  have "point_nonneg (ca + real i, fst bal, snd bal)"
    using "1.prems"(5,6) by (simp add: point_nonneg_def)
  then have pts: "list_all point_nonneg ?pts"
    using "1.prems"(7) by simp
  show ?case
  proof (cases "real i \<le> years \<and> real i \<noteq> years")
    case True
    have year: "nonneg (fst (simulatePoints_year ra w g pre post p ss ssa f cr cn (ca + real i) bal))"
      "nonneg (snd (simulatePoints_year ra w g pre post p ss ssa f cr cn (ca + real i) bal))"
      using simulatePoints_year_nonneg [OF "1.prems"(1-6)] by simp_all
    show ?thesis
      using "1.IH" [OF _ refl refl _ "1.prems"(1-4) year pts] True
      by (subst simulatePoints_loop.simps) (simp add: Let_def)
  next
    case False
    then show ?thesis
      using pts "1.prems"(7) by (subst simulatePoints_loop.simps) (auto simp: Let_def)
  qed
qed

lemma withdraw_shortfall:
  assumes "0 \<le> r" "0 \<le> n" "r + n \<le> W"
  shows "withdraw (Fin W) (Fin r, Fin n) = (Fin 0, Fin 0)"
  using assms by (auto simp: withdraw_Fin)

text \<open>
  Claim C4, as the code has it. When the starting balances and the annual contributions
  are not negative and the growth factors \<open>1 + rPre\<close> and \<open>1 + rPost\<close> are not
  negative, every point of \<open>simulatePoints\<close> and the result of \<open>simulateToAge\<close> have
  two non-negative balances, whatever the withdrawal need is (also when it is \<open>NaN\<close>).
  In a withdrawal year of either projector whose need is at least the two grown balances
  together, both buckets become \<open>0\<close>; the projectors return balances only, so nothing
  reports the shortfall.
\<close>

theorem projector_balances_nonneg:
  "(0 \<le> 1 + pre \<and> 0 \<le> 1 + post \<and> 0 \<le> initialRet \<and> 0 \<le> initialNonRet \<and> 0 \<le> cr \<and> 0 \<le> cn \<longrightarrow>
      list_all point_nonneg
        (simulatePoints ca la ra pfa initialRet initialNonRet w g pre post p ss ssa f
           (Fin cr) (Fin cn)))
   \<and> (0 \<le> 1 + rPrePct s \<and> 0 \<le> 1 + rPostPct s \<and> 0 \<le> parseNumber (retirementAccounts s) 0
        \<and> 0 \<le> parseNumber (nonRetirement s) 0 \<and> 0 \<le> a \<longrightarrow>
      nonneg (fst (simulateToAge s targetAge (Fin a)))
      \<and> nonneg (snd (simulateToAge s targetAge (Fin a))))
   \<and> (\<not> age < ra \<and> 0 \<le> 1 + post \<and> 0 \<le> r \<and> 0 \<le> n
        \<and> year_toWithdraw ra w g p ss ssa f age = Fin W
        \<and> r * (1 + post) + n * (1 + post) \<le> W \<longrightarrow>
      simulatePoints_year ra w g pre post p ss ssa f cr' cn' age (Fin r, Fin n) = (Fin 0, Fin 0))
   \<and> (\<not> Fin age < ToNumber (retirementAge s) \<and> 0 \<le> 1 + rPrePct s \<and> 0 \<le> 1 + rPostPct s
        \<and> 0 \<le> r \<and> 0 \<le> n
        \<and> year_toWithdraw (retirementAgeNum s) (withdrawalVal s) (inflationPct s)
              (pensionAnnual s) (ssAnnual s) (ssStartAgeNum s) (fixedIncomeInflationPct s) age
            = Fin W
        \<and> (let rate = (if age < retirementAgeNum s then rPrePct s else rPostPct s)
             in r * (1 + rate) + n * (1 + rate) \<le> W) \<longrightarrow>
      simulateToAge_year s a' age (Fin r, Fin n) = (Fin 0, Fin 0))"
proof (intro conjI impI)
  assume "0 \<le> 1 + pre \<and> 0 \<le> 1 + post \<and> 0 \<le> initialRet \<and> 0 \<le> initialNonRet \<and> 0 \<le> cr \<and> 0 \<le> cn"
  then show "list_all point_nonneg
        (simulatePoints ca la ra pfa initialRet initialNonRet w g pre post p ss ssa f
           (Fin cr) (Fin cn))"
    unfolding simulatePoints_def
    by (intro simulatePoints_loop_nonneg) simp_all
next
  assume h: "0 \<le> 1 + rPrePct s \<and> 0 \<le> 1 + rPostPct s \<and> 0 \<le> parseNumber (retirementAccounts s) 0
        \<and> 0 \<le> parseNumber (nonRetirement s) 0 \<and> 0 \<le> a"
  then have "nonneg (fst (simulateToAge s targetAge (Fin a)))
      \<and> nonneg (snd (simulateToAge s targetAge (Fin a)))"
    unfolding simulateToAge_def
    by (intro simulateToAge_loop_nonneg) simp_all
  then show "nonneg (fst (simulateToAge s targetAge (Fin a)))"
    "nonneg (snd (simulateToAge s targetAge (Fin a)))" by simp_all
next
  assume h: "\<not> age < ra \<and> 0 \<le> 1 + post \<and> 0 \<le> r \<and> 0 \<le> n
        \<and> year_toWithdraw ra w g p ss ssa f age = Fin W
        \<and> r * (1 + post) + n * (1 + post) \<le> W"
  then have "age < ra \<longleftrightarrow> False" by simp
  from h show "simulatePoints_year ra w g pre post p ss ssa f cr' cn' age (Fin r, Fin n) = (Fin 0, Fin 0)"
    by (simp add: simulatePoints_year_decumulation withdraw_shortfall)
next
  assume h: "\<not> Fin age < ToNumber (retirementAge s) \<and> 0 \<le> 1 + rPrePct s \<and> 0 \<le> 1 + rPostPct s
        \<and> 0 \<le> r \<and> 0 \<le> n
        \<and> year_toWithdraw (retirementAgeNum s) (withdrawalVal s) (inflationPct s)
              (pensionAnnual s) (ssAnnual s) (ssStartAgeNum s) (fixedIncomeInflationPct s) age
            = Fin W
        \<and> (let rate = (if age < retirementAgeNum s then rPrePct s else rPostPct s)
             in r * (1 + rate) + n * (1 + rate) \<le> W)"
  let ?rate = "if age < retirementAgeNum s then rPrePct s else rPostPct s"
  from h have raw: "\<not> Fin age < ToNumber (retirementAge s)" by simp
  from h have grown: "0 \<le> r * (1 + ?rate)" "0 \<le> n * (1 + ?rate)"
    "r * (1 + ?rate) + n * (1 + ?rate) \<le> W"
    by (simp_all add: Let_def)
  from h have need: "year_toWithdraw (retirementAgeNum s) (withdrawalVal s) (inflationPct s)
      (pensionAnnual s) (ssAnnual s) (ssStartAgeNum s) (fixedIncomeInflationPct s) age = Fin W"
    by simp
  show "simulateToAge_year s a' age (Fin r, Fin n) = (Fin 0, Fin 0)"
    unfolding simulateToAge_year_decumulation [OF raw] need
    using withdraw_shortfall [OF grown] by simp
qed

text \<open>
  One year of saving and one year of retirement with a need of 1000 against balances of
  100 and 60; and the default inputs with 1000 a year added, simulated to age 95.
\<close>

theorem projector_balances_nonneg_witness:
  "(0::real) \<le> 1 + 0 \<and> (0::real) \<le> 100 \<and> (0::real) \<le> 50 \<and> (0::real) \<le> 10
   \<and> simulatePoints 64 66 65 65 100 50 1000 0 0 0 0 0 67 0 (Fin 0) (Fin 10)
       = [(64, Fin 100, Fin 50), (65, Fin 100, Fin 60), (66, Fin 0, Fin 0)]
   \<and> list_all point_nonneg (simulatePoints 64 66 65 65 100 50 1000 0 0 0 0 0 67 0 (Fin 0) (Fin 10))
   \<and> 0 \<le> 1 + rPrePct initial_state \<and> 0 \<le> 1 + rPostPct initial_state
   \<and> nonneg (fst (simulateToAge initial_state 95 (Fin 1000)))
   \<and> nonneg (snd (simulateToAge initial_state 95 (Fin 1000)))
   \<and> year_toWithdraw 65 1000 0 0 0 67 0 65 = Fin 1000
   \<and> simulatePoints_year 65 1000 0 0 0 0 0 67 0 (Fin 0) (Fin 10) 65 (Fin 100, Fin 60)
       = (Fin 0, Fin 0)
   \<and> \<not> Fin 65 < ToNumber (retirementAge initial_state)
   \<and> year_toWithdraw (retirementAgeNum initial_state) (withdrawalVal initial_state)
         (inflationPct initial_state) (pensionAnnual initial_state) (ssAnnual initial_state)
         (ssStartAgeNum initial_state) (fixedIncomeInflationPct initial_state) 65 = Fin 50000
   \<and> simulateToAge_year initial_state (Fin 1000) 65 (Fin 100, Fin 60) = (Fin 0, Fin 0)"
proof -
  have pts: "simulatePoints 64 66 65 65 100 50 1000 0 0 0 0 0 67 0 (Fin 0) (Fin 10)
       = [(64, Fin 100, Fin 50), (65, Fin 100, Fin 60), (66, Fin 0, Fin 0)]"
    by (simp add: simulatePoints_def chart_years_def simulatePoints_loop.simps
          simulatePoints_year_accumulation simulatePoints_year_decumulation Let_def
          year_toWithdraw_def withdraw_Fin)
  have need: "year_toWithdraw 65 1000 0 0 0 67 0 65 = Fin 1000"
    by (simp add: year_toWithdraw_def)
  have nums: "rPrePct initial_state = 6 / 100" "rPostPct initial_state = 4 / 100"
    "parseNumber (retirementAccounts initial_state) 0 = 0"
    "parseNumber (nonRetirement initial_state) 0 = 0"
    by (simp_all add: app_numbers)
  have nums': "retirementAgeNum initial_state = 65"
    "ToNumber (retirementAge initial_state) = Fin 65" "withdrawalVal initial_state = 50000"
    "inflationPct initial_state = 2 / 100" "pensionAnnual initial_state = 0"
    "ssAnnual initial_state = 0" "ssStartAgeNum initial_state = 67"
    "fixedIncomeInflationPct initial_state = 0"
    by (simp_all add: app_numbers)
  have need': "year_toWithdraw 65 50000 (2 / 100) 0 0 67 0 65 = Fin 50000"
    by (simp add: year_toWithdraw_def)
  note inst = projector_balances_nonneg [where pre=0 and post=0 and initialRet=100
      and initialNonRet=50 and cr=0 and cn=10 and ca=64 and la=66 and ra=65 and pfa=65
      and w=1000 and g=0 and p=0 and ss=0 and ssa=67 and f=0 and s=initial_state and a=1000
      and targetAge=95 and age=65 and r=100 and n=60 and W=1000 and cr'="Fin 0"
      and cn'="Fin 10"]
  note inst' = projector_balances_nonneg [where s=initial_state and age=65 and r=100
      and n=60 and W=50000 and a'="Fin 1000", THEN conjunct2, THEN conjunct2, THEN conjunct2]
  have A: "list_all point_nonneg (simulatePoints 64 66 65 65 100 50 1000 0 0 0 0 0 67 0 (Fin 0) (Fin 10))"
    using inst by simp
  have B: "nonneg (fst (simulateToAge initial_state 95 (Fin 1000)))
     \<and> nonneg (snd (simulateToAge initial_state 95 (Fin 1000)))"
    using inst by (simp add: nums)
  have C: "simulatePoints_year 65 1000 0 0 0 0 0 67 0 (Fin 0) (Fin 10) 65 (Fin 100, Fin 60)
       = (Fin 0, Fin 0)"
    using inst by (simp add: need)
  have D: "simulateToAge_year initial_state (Fin 1000) 65 (Fin 100, Fin 60) = (Fin 0, Fin 0)"
    using inst' need' by (simp add: nums nums' Let_def)
  show ?thesis using A B C D need' by (simp add: pts need nums nums')
qed

text \<open>
  The claim as first worded, for every input: with a pre-retirement rate of \<open>-200%\<close>
  the growth step multiplies a retirement balance of 100 by \<open>-1\<close>, and nothing floors
  a balance in a saving year.
\<close>

lemma state_rPre_minus_200_numbers:
  "curAgeNum state_rPre_minus_200 = 40" "retirementAgeNum state_rPre_minus_200 = 65"
  "ToNumber (retirementAge state_rPre_minus_200) = Fin 65"
  "rPrePct state_rPre_minus_200 = - 2"
  "parseNumber (retirementAccounts state_rPre_minus_200) 0 = 100"
  "parseNumber (nonRetirement state_rPre_minus_200) 0 = 0"
  by (simp_all add: state_rPre_minus_200_def app_numbers)

theorem projector_balances_nonneg_counterexample:
  "simulateToAge state_rPre_minus_200 41 (Fin 0) = (Fin (- 100), Fin 0)
   \<and> \<not> nonneg (fst (simulateToAge state_rPre_minus_200 41 (Fin 0)))
   \<and> simulatePoints 64 65 65 65 100 0 50000 0 (- 2) 0 0 0 67 0 (Fin 0) (Fin 0)
       = [(64, Fin 100, Fin 0), (65, Fin (- 100), Fin 0)]"
proof -
  have 1: "simulateToAge state_rPre_minus_200 41 (Fin 0) = (Fin (- 100), Fin 0)"
    by (simp add: simulateToAge_def simulateToAge_loop.simps simulateToAge_year_accumulation
          state_rPre_minus_200_numbers annualRetirementContrib_def annualNonRetContrib_def)
  have 2: "simulatePoints 64 65 65 65 100 0 50000 0 (- 2) 0 0 0 67 0 (Fin 0) (Fin 0)
       = [(64, Fin 100, Fin 0), (65, Fin (- 100), Fin 0)]"
    by (simp add: simulatePoints_def chart_years_def simulatePoints_loop.simps
          simulatePoints_year_accumulation Let_def)
  show ?thesis using 1 2 by simp
qed

section \<open>One simulated year\<close>

lemma year_toWithdraw_Fin:
  assumes "ra \<le> age"
    and "0 \<le> 1 + g \<or> is_whole (age - ra)"
    and "0 \<le> 1 + f \<or> is_whole (age - ra) \<and> is_whole (age - ssa)"
  shows "year_toWithdraw ra w g p ss ssa f age =
         Fin (max 0 (w * rpow (1 + g) (age - ra) - p * rpow (1 + f) (age - ra)
                     - (if ssa \<le> age then ss * rpow (1 + f) (age - ssa) else 0)))"
proof -
  have t: "max 0 (age - ra) = age - ra" using assms(1) by simp
  have base: "Math_pow (1 + g) (age - ra) = Fin (rpow (1 + g) (age - ra))"
    using assms(1,2) by (intro Math_pow_Fin) auto
  have pens: "Math_pow (1 + f) (age - ra) = Fin (rpow (1 + f) (age - ra))"
    using assms(1,3) by (intro Math_pow_Fin) auto
  have ss: "Math_pow (1 + f) (max 0 (age - ssa)) = Fin (rpow (1 + f) (age - ssa))"
    if "ssa \<le> age"
  proof -
    have "max 0 (age - ssa) = age - ssa" using that by simp
    moreover have "Math_pow (1 + f) (age - ssa) = Fin (rpow (1 + f) (age - ssa))"
      using assms(3) that by (intro Math_pow_Fin) auto
    ultimately show ?thesis by simp
  qed
  show ?thesis
    unfolding year_toWithdraw_def t base pens using ss by simp
qed

lemma spec_net_at_years_since_retirement:
  assumes "ra \<le> ssa"
  shows "spec_net w g p ss (max 0 (ssa - ra)) f (age - ra) =
         max 0 (w * rpow (1 + g) (age - ra) - p * rpow (1 + f) (age - ra)
                - (if ssa \<le> age then ss * rpow (1 + f) (age - ssa) else 0))"
  using assms by (simp add: spec_net_def max_absorb2)

text \<open>
  Claim C5, as the code has it, for one year of \<open>simulateToAge\<close> when the
  retirement-age field holds a plain number \<open>ra\<close>. In a year with \<open>age < ra\<close> each
  bucket becomes its balance times \<open>1 + rPre\<close> plus its annual contribution. In a year
  with \<open>age \<ge> ra\<close> both buckets first grow by \<open>rPost\<close>; the need \<open>W\<close> is the base
  withdrawal less the pension, both grown over the years since retirement, less social
  security, which from age \<open>ssStartAge\<close> on is \<open>ssAnnual\<close> grown over the years since
  \<open>ssStartAge\<close>; \<open>W\<close> is taken from the non-retirement bucket first, and only the
  excess from the retirement bucket, which is floored at \<open>0\<close>. When social security
  does not start before retirement, \<open>W\<close> is the net withdrawal of the discounted
  withdrawal series at \<open>t = age - ra\<close>. (The powers must be defined: a growth factor is
  not negative, or the exponent is a whole number.)
\<close>

theorem simulateToAge_year_spec:
  "retirementAge s = Plain ra \<Longrightarrow>
   (age < ra \<longrightarrow>
      simulateToAge_year s (Fin a) age (Fin r, Fin n) =
        (Fin (r * (1 + rPrePct s) + annualRetirementContrib),
         Fin (n * (1 + rPrePct s) + (annualNonRetContrib + a))))
   \<and> (ra \<le> age \<and> (0 \<le> 1 + inflationPct s \<or> is_whole (age - ra))
        \<and> (0 \<le> 1 + fixedIncomeInflationPct s
             \<or> is_whole (age - ra) \<and> is_whole (age - ssStartAgeNum s)) \<longrightarrow>
      (let r' = r * (1 + rPostPct s);
           n' = n * (1 + rPostPct s);
           W = max 0 (withdrawalVal s * rpow (1 + inflationPct s) (age - ra)
                      - pensionAnnual s * rpow (1 + fixedIncomeInflationPct s) (age - ra)
                      - (if ssStartAgeNum s \<le> age
                         then ssAnnual s
                                * rpow (1 + fixedIncomeInflationPct s) (age - ssStartAgeNum s)
                         else 0))
       in simulateToAge_year s (Fin a) age (Fin r, Fin n) =
            (if W \<le> n' then (Fin r', Fin (n' - W))
             else (Fin (max 0 (r' - (W - n'))), Fin 0))
          \<and> (ra \<le> ssStartAgeNum s \<longrightarrow>
               W = spec_net (withdrawalVal s) (inflationPct s) (pensionAnnual s) (ssAnnual s)
                     (ssOffset s) (fixedIncomeInflationPct s) (age - ra))))"
proof -
  assume field: "retirementAge s = Plain ra"
  then have ra: "retirementAgeNum s = ra" "ToNumber (retirementAge s) = Fin ra"
    by (simp_all add: retirementAgeNum_def)
  have acc: "age < ra \<Longrightarrow>
      simulateToAge_year s (Fin a) age (Fin r, Fin n) =
        (Fin (r * (1 + rPrePct s) + annualRetirementContrib),
         Fin (n * (1 + rPrePct s) + (annualNonRetContrib + a)))"
    by (simp add: simulateToAge_year_accumulation ra)
  have dec: "ra \<le> age \<Longrightarrow> 0 \<le> 1 + inflationPct s \<or> is_whole (age - ra) \<Longrightarrow>
      0 \<le> 1 + fixedIncomeInflationPct s \<or> is_whole (age - ra) \<and> is_whole (age - ssStartAgeNum s) \<Longrightarrow>
      simulateToAge_year s (Fin a) age (Fin r, Fin n) =
        withdraw (Fin (max 0 (withdrawalVal s * rpow (1 + inflationPct s) (age - ra)
                      - pensionAnnual s * rpow (1 + fixedIncomeInflationPct s) (age - ra)
                      - (if ssStartAgeNum s \<le> age
                         then ssAnnual s
                                * rpow (1 + fixedIncomeInflationPct s) (age - ssStartAgeNum s)
                         else 0))))
          (Fin (r * (1 + rPostPct s)), Fin (n * (1 + rPostPct s)))"
    by (simp add: simulateToAge_year_decumulation ra year_toWithdraw_Fin)
  show ?thesis
    using acc dec
      spec_net_at_years_since_retirement [of ra "ssStartAgeNum s" "withdrawalVal s"
        "inflationPct s" "pensionAnnual s" "ssAnnual s" "fixedIncomeInflationPct s" age]
    by (simp add: Let_def withdraw_Fin ssOffset_def ra)
qed

text \<open>
  The default inputs at ages 64 and 66, with balances of 100000 and 20000 and 1000 a year
  added to the non-retirement bucket.
\<close>

lemma initial_state_numbers:
  "retirementAge initial_state = Plain 65"
  "ssStartAgeNum initial_state = 67"
  "ssOffset initial_state = 2"
  "withdrawalVal initial_state = 50000"
  "inflationPct initial_state = 2 / 100"
  "pensionAnnual initial_state = 0"
  "ssAnnual initial_state = 0"
  "fixedIncomeInflationPct initial_state = 0"
  "rPrePct initial_state = 6 / 100"
  "rPostPct initial_state = 4 / 100"
  by (simp_all add: app_numbers)

theorem simulateToAge_year_spec_witness:
  "retirementAge initial_state = Plain 65
   \<and> (64::real) < 65
   \<and> simulateToAge_year initial_state (Fin 1000) 64 (Fin 100000, Fin 20000)
       = (Fin 106000, Fin 22200)
   \<and> (65::real) \<le> 66 \<and> 0 \<le> 1 + inflationPct initial_state
   \<and> 0 \<le> 1 + fixedIncomeInflationPct initial_state
   \<and> simulateToAge_year initial_state (Fin 1000) 66 (Fin 100000, Fin 20000)
       = (Fin (104000 - 30200), Fin 0)
   \<and> 65 \<le> ssStartAgeNum initial_state
   \<and> spec_net (withdrawalVal initial_state) (inflationPct initial_state)
        (pensionAnnual initial_state) (ssAnnual initial_state) (ssOffset initial_state)
        (fixedIncomeInflationPct initial_state) (66 - 65) = 51000"
  using simulateToAge_year_spec [of initial_state 65 64 1000 100000 20000]
    simulateToAge_year_spec [of initial_state 65 66 1000 100000 20000]
  by (simp add: initial_state_numbers Let_def annualRetirementContrib_def
        annualNonRetContrib_def)

text \<open>
  The claim as first worded: retirement at 70 with social security from 67, growing by
  100% a year. In the first retirement year the series has a social-security offset of
  12 and a net withdrawal of 88; the projector has grown the offset for three years, to
  96, and withdraws 4.
\<close>

lemma state_ss_before_retirement_numbers:
  "retirementAge state_ss_before_retirement = Plain 70"
  "retirementAgeNum state_ss_before_retirement = 70"
  "ssStartAgeNum state_ss_before_retirement = 67"
  "ssOffset state_ss_before_retirement = 0"
  "withdrawalVal state_ss_before_retirement = 100"
  "inflationPct state_ss_before_retirement = 2 / 100"
  "pensionAnnual state_ss_before_retirement = 0"
  "ssAnnual state_ss_before_retirement = 12"
  "fixedIncomeInflationPct state_ss_before_retirement = 1"
  "rPrePct state_ss_before_retirement = 6 / 100"
  "rPostPct state_ss_before_retirement = 0"
  by (simp_all add: state_ss_before_retirement_def app_numbers)

theorem simulateToAge_year_spec_counterexample:
  "simulateToAge_year state_ss_before_retirement (Fin 0) 70 (Fin 0, Fin 1000) = (Fin 0, Fin 996)
   \<and> spec_net (withdrawalVal state_ss_before_retirement) (inflationPct state_ss_before_retirement)
        (pensionAnnual state_ss_before_retirement) (ssAnnual state_ss_before_retirement)
        (ssOffset state_ss_before_retirement) (fixedIncomeInflationPct state_ss_before_retirement)
        (70 - retirementAgeNum state_ss_before_retirement) = 88
   \<and> snd (simulateToAge_year state_ss_before_retirement (Fin 0) 70 (Fin 0, Fin 1000))
       \<noteq> Fin (1000 * (1 + rPostPct state_ss_before_retirement) - 88)"
proof -
  have year: "simulateToAge_year state_ss_before_retirement (Fin 0) 70 (Fin 0, Fin 1000)
      = (Fin 0, Fin 996)"
    by (simp add: simulateToAge_year_def Let_def state_ss_before_retirement_numbers)
  have net: "spec_net 100 (2 / 100) 0 12 0 1 0 = 88"
    by (simp add: spec_net_def)
  show ?thesis
    using year net by (simp add: state_ss_before_retirement_numbers)
qed

end
